theory Spec2Isabelle
  imports Complex_Main "HOL-Library.Log_Nat"
begin

text \<open>
  The task lifecycle engine (\<open>TaskService\<close>) and the notification dispatch coordinator
  (\<open>AlertService\<close>) of the Bring-Up server, as functions on an explicit state: the
  Firestore collections they read and write, the clock, and the push service. Writing to
  the log has no effect on that state and is left out.
\<close>

section \<open>Numbers and pagination metadata (TaskService.buildPaginationMeta)\<close>

text \<open>
  The service computes with JavaScript numbers, which are IEEE doubles. Counts, page
  numbers, minutes and millisecond timestamps hold integers, and the sums and products
  the code forms of them are modelled on \<open>int\<close>. The quotient \<open>totalItems / limit\<close> is
  in general not an integer: the division rounds it to the nearest double (53
  significant bits, ties to even) before \<open>Math.ceil\<close> sees it, and the model rounds it
  in the same way.
\<close>

text \<open>Rounding to the nearest integer, a tie going to the even one.\<close>

definition round_half_even :: "rat \<Rightarrow> int" where
  "round_half_even y =
     (let f = \<lfloor>y\<rfloor>; r = y - of_int f
      in if r < 1 / 2 then f
         else if 1 / 2 < r then f + 1
         else if even f then f else f + 1)"

text \<open>
  The binary exponent of \<open>a / b\<close> for positive \<open>a\<close> and \<open>b\<close>: the \<open>e\<close> with
  \<open>2^e \<le> a / b < 2^(e+1)\<close>. The difference of the bit lengths is that exponent or one
  more.
\<close>

definition binade :: "int \<Rightarrow> int \<Rightarrow> int" where
  "binade a b =
     (let k = bitlen a - bitlen b
      in if 2 powi k \<le> rat_of_int a / rat_of_int b then k else k - 1)"

text \<open>
  \<open>n / d\<close> for \<open>d \<noteq> 0\<close>: the quotient with its significand rounded to 53 bits, that
  is to a multiple of \<open>2^(e - 52)\<close>, where \<open>e\<close> is its binary exponent. The exponent
  range of a double plays no part in \<open>Math.ceil(n / d)\<close>: for numbers that hold integers
  the quotient is at most \<open>|n|\<close> in size, so it does not overflow, and where it is
  smaller than every normal double it lies strictly between \<open>-1\<close> and \<open>1\<close> with the
  sign of the exact quotient whatever the precision, so its ceiling is the same.
\<close>

definition js_divide :: "int \<Rightarrow> int \<Rightarrow> rat" where
  "js_divide n d =
     (if n = 0 then 0
      else
        (let x = rat_of_int n / rat_of_int d;
             t = binade \<bar>n\<bar> \<bar>d\<bar> - 52
         in sgn x * of_int (round_half_even (\<bar>x\<bar> / 2 powi t)) * 2 powi t))"

text \<open>
  The result of \<open>Math.ceil\<close> is an integer, or not finite when \<open>limit = 0\<close>: the type
  keeps these values apart.
\<close>

datatype js_number = Finite int | PosInfinity | NegInfinity | NaN

text \<open>\<open>Math.ceil(totalItems / limit)\<close> on integer arguments.\<close>

definition ceil_div :: "int \<Rightarrow> int \<Rightarrow> js_number" where
  "ceil_div totalItems limit =
     (if limit = 0 then
        (if totalItems > 0 then PosInfinity
         else if totalItems < 0 then NegInfinity
         else NaN)
      else Finite \<lceil>js_divide totalItems limit\<rceil>)"

text \<open>\<open>page < totalPages\<close>: every comparison with \<open>NaN\<close> is false.\<close>

fun js_less :: "int \<Rightarrow> js_number \<Rightarrow> bool" where
  "js_less p (Finite n) = (p < n)"
| "js_less p PosInfinity = True"
| "js_less p NegInfinity = False"
| "js_less p NaN = False"

record PaginationMeta =
  currentPage :: int
  itemsPerPage :: int
  totalItems :: int
  totalPages :: js_number
  hasNextPage :: bool
  hasPreviousPage :: bool

definition buildPaginationMeta :: "int \<Rightarrow> int \<Rightarrow> int \<Rightarrow> PaginationMeta" where
  "buildPaginationMeta n page limit =
     (let tp = ceil_div n limit in
      \<lparr> currentPage = page,
        itemsPerPage = limit,
        totalItems = n,
        totalPages = tp,
        hasNextPage = js_less page tp,
        hasPreviousPage = (page > 1) \<rparr>)"


section \<open>Shared types (libs/shared)\<close>

text \<open>
  A Firestore \<open>Timestamp\<close> is used by the services only through \<open>Timestamp.now()\<close>,
  \<open>Timestamp.fromMillis\<close> and \<open>toMillis()\<close>; it is modelled as the number of
  milliseconds since the epoch, on which the last two are the identity.
\<close>

type_synonym Timestamp = int

datatype TaskStatus = PENDING | COMPLETED | CANCELLED | EXPIRED

datatype TaskReaction = ON_IT | RUNNING_LATE | NEED_HELP

datatype NotificationType =
  TASK_ASSIGNED | TASK_REACTION | TASK_COMPLETED | TASK_REMINDER
| TASK_UPDATED | TASK_DELETED | SYSTEM_ALERT

datatype NotificationStatus = NS_PENDING | NS_SENT | NS_DELIVERED | NS_READ | NS_FAILED

text \<open>The string values of the enums, where the code uses them as strings.\<close>

fun TaskReaction_value :: "TaskReaction \<Rightarrow> string" where
  "TaskReaction_value ON_IT = ''on_it''"
| "TaskReaction_value RUNNING_LATE = ''running_late''"
| "TaskReaction_value NEED_HELP = ''need_help''"

fun NotificationType_value :: "NotificationType \<Rightarrow> string" where
  "NotificationType_value TASK_ASSIGNED = ''task_assigned''"
| "NotificationType_value TASK_REACTION = ''task_reaction''"
| "NotificationType_value TASK_COMPLETED = ''task_completed''"
| "NotificationType_value TASK_REMINDER = ''task_reminder''"
| "NotificationType_value TASK_UPDATED = ''task_updated''"
| "NotificationType_value TASK_DELETED = ''task_deleted''"
| "NotificationType_value SYSTEM_ALERT = ''system_alert''"

record TaskUser =
  uid :: string
  email :: string
  name :: string

text \<open>
  Of a stored user (\<open>FirebaseUser\<close>) the services read the e-mail address, the display
  name and the push token; each may be missing (\<open>null\<close> or \<open>undefined\<close>).
\<close>

record FirebaseUser =
  fu_email :: "string option"
  fu_name :: "string option"
  fcmToken :: "string option"

record TaskUrgency =
  expiresAt :: Timestamp
  durationMinutes :: int

record TaskNotification =
  sent :: bool
  sentAt :: "Timestamp option"
  error :: "string option"

text \<open>
  The stored task. \<open>extensionCount\<close> is read as \<open>taskData.extensionCount ?? 0\<close>, so a
  document may lack the field: \<open>None\<close>.
\<close>

record TaskDocument =
  title :: string
  note' :: "string option"
  createdBy :: TaskUser
  assignedTo :: TaskUser
  status :: TaskStatus
  assigneeReaction :: "TaskReaction option"
  urgency :: TaskUrgency
  notification :: TaskNotification
  createdAt :: Timestamp
  updatedAt :: Timestamp
  ttl :: Timestamp
  extensionCount :: "int option"

text \<open>
  The API form of a task. Instants are rendered by \<open>toISOString\<close>, which is one-to-one
  on millisecond timestamps; the model keeps the timestamp itself.
\<close>

record TaskUrgencyResponse =
  r_expiresAt :: Timestamp
  r_durationMinutes :: int
  remainingMinutes :: int
  r_isExpired :: bool

record TaskNotificationResponse =
  r_sent :: bool
  r_sentAt :: "Timestamp option"
  r_error :: "string option"

record TaskResponse =
  r_id :: string
  r_title :: string
  r_note :: "string option"
  r_createdBy :: TaskUser
  r_assignedTo :: TaskUser
  r_status :: TaskStatus
  r_assigneeReaction :: "TaskReaction option"
  r_urgency :: TaskUrgencyResponse
  r_notification :: TaskNotificationResponse
  r_createdAt :: Timestamp
  r_updatedAt :: Timestamp
  r_extensionCount :: int

record CreateTaskDto =
  c_title :: string
  c_note :: "string option"
  c_durationMinutes :: int
  assignToEmail :: string

record INotificationData =
  d_taskId :: string
  d_type :: string

record INotificationDocument =
  n_type :: NotificationType
  recipientUid :: string
  senderUid :: string
  n_taskId :: string
  n_title :: string
  n_body :: string
  n_data :: INotificationData
  n_status :: NotificationStatus
  isRead :: bool
  n_createdAt :: Timestamp
  n_sentAt :: "Timestamp option"
  readAt :: "Timestamp option"
  fcmMessageId :: "string option"
  n_error :: "string option"

record ISendPushNotificationParams =
  p_taskId :: string
  p_recipientUid :: string
  p_senderUid :: string
  p_type :: NotificationType
  p_title :: string
  p_body :: string
  p_dataType :: string

text \<open>The message handed to the Expo SDK, and the ticket it answers with.\<close>

record ExpoPushMessage =
  m_to :: string
  m_sound :: string
  m_title :: string
  m_body :: string
  m_notificationId :: string
  m_taskId :: string
  m_type :: string
  m_priority :: string
  m_channelId :: string

datatype ExpoPushTicket =
  ExpoPushSuccessTicket "string option"   \<comment> \<open>\<open>{status: 'ok', id}\<close>\<close>
| ExpoPushErrorTicket "string option"     \<comment> \<open>\<open>{status: 'error', message}\<close>\<close>

text \<open>The exceptions the services throw, each with its message.\<close>

datatype exn =
  NotFoundException string
| ForbiddenException string
| BadRequestException string
| Error string

fun message :: "exn \<Rightarrow> string" where
  "message (NotFoundException m) = m"
| "message (ForbiddenException m) = m"
| "message (BadRequestException m) = m"
| "message (Error m) = m"

subsection \<open>Constants (task.constant.ts, alert.constant.ts)\<close>

definition TASK_TIME_MS_MINUTE :: int where
  "TASK_TIME_MS_MINUTE = 60 * 1000"

definition DEFAULT_TTL_AFTER_EXPIRY :: int where
  "DEFAULT_TTL_AFTER_EXPIRY = 7 * 24 * 60 * 60 * 1000"

definition RUNNING_LATE_EXTENSION :: int where
  "RUNNING_LATE_EXTENSION = 30 * 60 * 1000"

definition MAX_EXTENSIONS :: int where
  "MAX_EXTENSIONS = 3"

definition TASK_NOT_FOUND :: string where
  "TASK_NOT_FOUND = ''Task not found''"

definition CREATOR_NOT_FOUND :: string where
  "CREATOR_NOT_FOUND = ''Creator user not found''"

definition ASSIGNEE_NOT_FOUND :: "string \<Rightarrow> string" where
  "ASSIGNEE_NOT_FOUND e = ''User with email '' @ e @ '' not found''"

definition SELF_ASSIGNMENT :: string where
  "SELF_ASSIGNMENT = ''Cannot assign task to yourself''"

definition ACCESS_DENIED :: string where
  "ACCESS_DENIED = ''You do not have access to this task''"

definition CANNOT_UPDATE_EXPIRED :: string where
  "CANNOT_UPDATE_EXPIRED = ''Cannot update an expired task''"

definition ALREADY_COMPLETED :: string where
  "ALREADY_COMPLETED = ''Task is already completed''"

definition ALREADY_CANCELLED :: string where
  "ALREADY_CANCELLED = ''Task is already cancelled''"

definition CANNOT_REACT :: string where
  "CANNOT_REACT = ''Cannot react to non-pending tasks''"

definition MAX_EXTENSIONS_MSG :: string where
  "MAX_EXTENSIONS_MSG = ''Maximum number of extensions reached''"

definition ONLY_ASSIGNEE_CAN_REACT :: string where
  "ONLY_ASSIGNEE_CAN_REACT = ''Only assignee can set reaction''"

definition ONLY_CREATOR_CAN_CANCEL :: string where
  "ONLY_CREATOR_CAN_CANCEL = ''Only task creator can cancel the task''"

definition ONLY_ASSIGNEE_CAN_COMPLETE :: string where
  "ONLY_ASSIGNEE_CAN_COMPLETE = ''Only assignee can mark task as completed''"

definition CHANNEL_ID :: string where
  "CHANNEL_ID = ''task_notifications''"


section \<open>The environment and the store\<close>

text \<open>
  What a service call receives from outside is a parameter of the model:
  \<^item> \<open>clock\<close>: the wall clock; \<open>clock e k\<close> is the value of the \<open>k\<close>-th reading
    (\<open>Date.now()\<close> or \<open>Timestamp.now()\<close>), so that successive readings may differ;
  \<^item> \<open>autoId\<close>: the identifier Firestore generates for the \<open>k\<close>-th \<open>add\<close>;
  \<^item> \<open>isExpoPushToken\<close>: the format check of the Expo SDK;
  \<^item> \<open>sendPushNotificationsAsync\<close>: the answer of the Expo push service to the
    \<open>k\<close>-th submitted message: either the call throws (\<open>Inl\<close> the message of the
    exception) or it returns tickets.
\<close>

record env =
  clock :: "nat \<Rightarrow> Timestamp"
  autoId :: "nat \<Rightarrow> string"
  isExpoPushToken :: "string \<Rightarrow> bool"
  sendPushNotificationsAsync :: "nat \<Rightarrow> ExpoPushMessage \<Rightarrow> string + ExpoPushTicket list"

text \<open>
  The state the calls act on: the three Firestore collections, the messages handed to
  the push service so far, and how many clock readings and generated identifiers have
  been consumed. The \<open>tasks\<close> collection is only accessed by document identifier. The
  other two are also queried by field, so they are kept as lists of (identifier, data)
  in the order in which an unordered query returns them. Calls run one after the other,
  and each store operation succeeds.
\<close>

record world =
  tasks :: "string \<rightharpoonup> TaskDocument"
  notifications :: "(string \<times> INotificationDocument) list"
  users :: "(string \<times> FirebaseUser) list"
  pushed :: "ExpoPushMessage list"
  ticks :: nat
  allocs :: nat

definition now :: "env \<Rightarrow> world \<Rightarrow> Timestamp \<times> world" where
  "now e w = (clock e (ticks w), w\<lparr>ticks := Suc (ticks w)\<rparr>)"

definition newId :: "env \<Rightarrow> world \<Rightarrow> string \<times> world" where
  "newId e w = (autoId e (allocs w), w\<lparr>allocs := Suc (allocs w)\<rparr>)"

text \<open>
  \<open>a || d\<close> on an optional string and \<open>a ?? d\<close>. A missing string and the empty
  string are both falsy, so \<open>or_else a [] = []\<close> is the test \<open>!a\<close>.
\<close>

definition or_else :: "string option \<Rightarrow> string \<Rightarrow> string" where
  "or_else a d = (case a of None \<Rightarrow> d | Some s \<Rightarrow> if s = [] then d else s)"

definition nullish :: "'a option \<Rightarrow> 'a \<Rightarrow> 'a" where
  "nullish a d = (case a of None \<Rightarrow> d | Some x \<Rightarrow> x)"

section \<open>AlertService (the dispatch coordinator)\<close>

text \<open>
  A call of the coordinator may throw after it has written to the store, so each
  function returns the exception, if any, together with the state it leaves behind.
\<close>

definition checkExistingNotification ::
  "world \<Rightarrow> string \<Rightarrow> string \<Rightarrow> NotificationType \<Rightarrow> bool" where
  "checkExistingNotification w taskId recipient ty =
     (take 1 (filter (\<lambda>(nid, n). n_taskId n = taskId \<and> recipientUid n = recipient \<and> n_type n = ty)
                (notifications w)) \<noteq> [])"

text \<open>The \<open>notificationData\<close> of \<open>createNotificationRecord\<close>, created at instant \<open>t\<close>.\<close>

definition notificationData :: "ISendPushNotificationParams \<Rightarrow> Timestamp \<Rightarrow> INotificationDocument" where
  "notificationData p t =
     \<lparr> n_type = p_type p,
       recipientUid = p_recipientUid p,
       senderUid = p_senderUid p,
       n_taskId = p_taskId p,
       n_title = p_title p,
       n_body = p_body p,
       n_data = \<lparr> d_taskId = p_taskId p, d_type = p_dataType p \<rparr>,
       n_status = NS_PENDING,
       isRead = False,
       n_createdAt = t,
       n_sentAt = None,
       readAt = None,
       fcmMessageId = None,
       n_error = None \<rparr>"

definition createNotificationRecord ::
  "env \<Rightarrow> world \<Rightarrow> ISendPushNotificationParams \<Rightarrow> string \<times> world" where
  "createNotificationRecord e w p =
     (let (t, w1) = now e w;
          (ref, w2) = newId e w1
      in (ref, w2\<lparr>notifications := notifications w2 @ [(ref, notificationData p t)]\<rparr>))"

definition getUser :: "world \<Rightarrow> string \<Rightarrow> FirebaseUser option" where
  "getUser w u = map_of (users w) u"

text \<open>\<open>ref.update(fields)\<close> on a notification document.\<close>

definition update_notification ::
  "world \<Rightarrow> string \<Rightarrow> (INotificationDocument \<Rightarrow> INotificationDocument) \<Rightarrow> world" where
  "update_notification w ref f =
     w\<lparr>notifications := map (\<lambda>(k, d). if k = ref then (k, f d) else (k, d)) (notifications w)\<rparr>"

definition updateNotificationStatus ::
  "world \<Rightarrow> string \<Rightarrow> NotificationStatus \<Rightarrow> string option \<Rightarrow> world" where
  "updateNotificationStatus w ref st err =
     update_notification w ref
       (\<lambda>d. case err of
               None \<Rightarrow> d\<lparr>n_status := st\<rparr>
             | Some m \<Rightarrow> if m = [] then d\<lparr>n_status := st\<rparr>
                         else d\<lparr>n_status := st, n_error := Some m\<rparr>)"

text \<open>The \<open>message\<close> of \<open>sendExpoNotification\<close>.\<close>

definition expoPushMessage ::
  "string \<Rightarrow> string \<Rightarrow> string \<Rightarrow> string \<Rightarrow> string \<Rightarrow> string \<Rightarrow> ExpoPushMessage" where
  "expoPushMessage notificationRef expoPushToken taskId title' body dataType =
     \<lparr> m_to = expoPushToken,
       m_sound = ''default'',
       m_title = title',
       m_body = body,
       m_notificationId = notificationRef,
       m_taskId = taskId,
       m_type = dataType,
       m_priority = ''high'',
       m_channelId = CHANNEL_ID \<rparr>"

text \<open>
  One message makes one chunk, so the loop over the chunks is one call of the SDK; the
  message is recorded in \<open>pushed\<close> whether the call returns or throws. \<open>tickets[0]\<close> is
  \<open>undefined\<close> when no ticket comes back, and then the record is marked sent.
\<close>

definition sendExpoNotification ::
  "env \<Rightarrow> world \<Rightarrow> string \<Rightarrow> string \<Rightarrow> string \<Rightarrow> string \<Rightarrow> string \<Rightarrow> string
     \<Rightarrow> exn option \<times> world" where
  "sendExpoNotification e w notificationRef expoPushToken taskId title' body dataType =
     (let msg = expoPushMessage notificationRef expoPushToken taskId title' body dataType;
          answer = sendPushNotificationsAsync e (length (pushed w)) msg;
          w1 = w\<lparr>pushed := pushed w @ [msg]\<rparr>
      in case answer of
           Inl thrown \<Rightarrow> (Some (Error thrown), w1)
         | Inr tickets \<Rightarrow>
             (case tickets of
                ExpoPushErrorTicket m # _ \<Rightarrow>
                  (let errorMsg = or_else m ''Unknown Expo error''
                   in (Some (Error errorMsg),
                       updateNotificationStatus w1 notificationRef NS_FAILED (Some errorMsg)))
              | _ \<Rightarrow>
                  (let ticketId = (case tickets of ExpoPushSuccessTicket i # _ \<Rightarrow> i | _ \<Rightarrow> None);
                       (t, w2) = now e w1
                   in (None,
                       update_notification w2 notificationRef
                         (\<lambda>d. d\<lparr>n_status := NS_SENT,
                                n_sentAt := Some t,
                                fcmMessageId := Some (or_else ticketId ''unknown'')\<rparr>)))))"

definition sendPushNotification ::
  "env \<Rightarrow> world \<Rightarrow> ISendPushNotificationParams \<Rightarrow> exn option \<times> world" where
  "sendPushNotification e w p =
     (if p_type p = TASK_ASSIGNED
         \<and> checkExistingNotification w (p_taskId p) (p_recipientUid p) (p_type p)
      then (None, w)
      else
        (let (notificationRef, w1) = createNotificationRecord e w p
         in case getUser w1 (p_recipientUid p) of
              None \<Rightarrow> (None, updateNotificationStatus w1 notificationRef NS_FAILED
                                (Some ''User not found''))
            | Some user \<Rightarrow>
                (let expoPushToken = or_else (fcmToken user) []
                 in if expoPushToken = []
                    then (None, updateNotificationStatus w1 notificationRef NS_FAILED
                            (Some ''User has no FCM token - needs to login to enable notifications''))
                    else if \<not> isExpoPushToken e expoPushToken
                    then (None, updateNotificationStatus w1 notificationRef NS_FAILED
                            (Some ''Invalid Expo Push Token format''))
                    else sendExpoNotification e w1 notificationRef expoPushToken
                           (p_taskId p) (p_title p) (p_body p) (p_dataType p))))"

definition sendTaskAssignmentNotification ::
  "env \<Rightarrow> world \<Rightarrow> string \<Rightarrow> string \<Rightarrow> string \<Rightarrow> string \<Rightarrow> string \<Rightarrow> exn option \<times> world" where
  "sendTaskAssignmentNotification e w taskId assigneeUid creatorUid creatorName taskTitle =
     sendPushNotification e w
       \<lparr> p_taskId = taskId,
         p_recipientUid = assigneeUid,
         p_senderUid = creatorUid,
         p_type = TASK_ASSIGNED,
         p_title = ''New task from '' @ creatorName,
         p_body = taskTitle,
         p_dataType = NotificationType_value TASK_ASSIGNED \<rparr>"

definition sendTaskReactionNotification ::
  "env \<Rightarrow> world \<Rightarrow> string \<Rightarrow> string \<Rightarrow> string \<Rightarrow> string \<Rightarrow> string \<Rightarrow> string
     \<Rightarrow> exn option \<times> world" where
  "sendTaskReactionNotification e w taskId creatorUid assigneeUid assigneeName taskTitle reaction =
     (let reactionText = map (\<lambda>c. if c = CHR ''_'' then CHR '' '' else c) reaction
      in sendPushNotification e w
           \<lparr> p_taskId = taskId,
             p_recipientUid = creatorUid,
             p_senderUid = assigneeUid,
             p_type = TASK_REACTION,
             p_title = assigneeName @ '' responded'',
             p_body = [CHR 0x22] @ reactionText @ [CHR 0x22] @ '' on: '' @ taskTitle,
             p_dataType = NotificationType_value TASK_REACTION \<rparr>)"


section \<open>TaskService (the lifecycle engine)\<close>

text \<open>
  \<open>toLowerCase\<close> and \<open>trim\<close> on ASCII strings: the letters \<open>A\<close> to \<open>Z\<close>, and the
  white space characters tab, line feed, vertical tab, form feed, carriage return and
  space.
\<close>

definition toLowerCase :: "string \<Rightarrow> string" where
  "toLowerCase =
     map (\<lambda>c. case map_of (zip ''ABCDEFGHIJKLMNOPQRSTUVWXYZ'' ''abcdefghijklmnopqrstuvwxyz'') c of
                None \<Rightarrow> c
              | Some l \<Rightarrow> l)"

definition is_space :: "char \<Rightarrow> bool" where
  "is_space c = (c \<in> set [CHR 0x09, CHR 0x0A, CHR 0x0B, CHR 0x0C, CHR 0x0D, CHR '' ''])"

definition trim :: "string \<Rightarrow> string" where
  "trim s = rev (dropWhile is_space (rev (dropWhile is_space s)))"

definition calculateRemainingMinutes :: "env \<Rightarrow> world \<Rightarrow> Timestamp \<Rightarrow> int \<times> world" where
  "calculateRemainingMinutes e w expiry =
     (let (n, w1) = now e w;
          remainingMs = expiry - n
      in (max 0 (remainingMs div TASK_TIME_MS_MINUTE), w1))"

definition isExpired :: "env \<Rightarrow> world \<Rightarrow> Timestamp \<Rightarrow> bool \<times> world" where
  "isExpired e w expiry = (let (n, w1) = now e w in (expiry \<le> n, w1))"

text \<open>A \<open>Task\<close> is a stored document together with its identifier.\<close>

definition transformToResponse ::
  "env \<Rightarrow> world \<Rightarrow> string \<Rightarrow> TaskDocument \<Rightarrow> TaskResponse \<times> world" where
  "transformToResponse e w taskId task =
     (let (remaining, w1) = calculateRemainingMinutes e w (expiresAt (urgency task));
          (expired, w2) = isExpired e w1 (expiresAt (urgency task))
      in (\<lparr> r_id = taskId,
            r_title = title task,
            r_note = note' task,
            r_createdBy = createdBy task,
            r_assignedTo = assignedTo task,
            r_status = status task,
            r_assigneeReaction = assigneeReaction task,
            r_urgency = \<lparr> r_expiresAt = expiresAt (urgency task),
                          r_durationMinutes = durationMinutes (urgency task),
                          remainingMinutes = remaining,
                          r_isExpired = expired \<rparr>,
            r_notification = \<lparr> r_sent = sent (notification task),
                               r_sentAt = sentAt (notification task),
                               r_error = error (notification task) \<rparr>,
            r_createdAt = createdAt task,
            r_updatedAt = updatedAt task,
            r_extensionCount = nullish (extensionCount task) 0 \<rparr>, w2))"

definition getTaskUser :: "world \<Rightarrow> string \<Rightarrow> string \<Rightarrow> exn + TaskUser" where
  "getTaskUser w u errorMessage =
     (case map_of (users w) u of
        None \<Rightarrow> Inl (NotFoundException errorMessage)
      | Some userData \<Rightarrow>
          Inr \<lparr> uid = u,
                email = nullish (fu_email userData) [],
                name = nullish (fu_name userData) ''Unknown'' \<rparr>)"

text \<open>The result is the \<open>docId\<close> of the first match and the user built from it.\<close>

definition findUserByEmail :: "world \<Rightarrow> string \<Rightarrow> exn + string \<times> TaskUser" where
  "findUserByEmail w mail =
     (case take 1 (filter (\<lambda>(k, u). fu_email u = Some (toLowerCase mail)) (users w)) of
        [] \<Rightarrow> Inl (NotFoundException (ASSIGNEE_NOT_FOUND mail))
      | (docId, userData) # _ \<Rightarrow>
          Inr (docId, \<lparr> uid = docId,
                        email = nullish (fu_email userData) [],
                        name = nullish (fu_name userData) ''Unknown'' \<rparr>))"

definition getAuthorizedTask :: "world \<Rightarrow> string \<Rightarrow> string \<Rightarrow> exn + TaskDocument" where
  "getAuthorizedTask w taskId userUid =
     (case tasks w taskId of
        None \<Rightarrow> Inl (NotFoundException TASK_NOT_FOUND)
      | Some taskData \<Rightarrow>
          if uid (createdBy taskData) \<noteq> userUid \<and> uid (assignedTo taskData) \<noteq> userUid
          then Inl (ForbiddenException ACCESS_DENIED)
          else Inr taskData)"

text \<open>
  \<open>taskRef.update(fields)\<close> on a task document. Firestore rejects the update of a
  document that does not exist; every update below follows a successful \<open>get\<close> or
  \<open>add\<close> of the same document within the same call, so that case does not arise and
  the model leaves the store as it is there.
\<close>

definition update_task :: "world \<Rightarrow> string \<Rightarrow> (TaskDocument \<Rightarrow> TaskDocument) \<Rightarrow> world" where
  "update_task w taskRef f =
     (case tasks w taskRef of
        None \<Rightarrow> w
      | Some d \<Rightarrow> w\<lparr>tasks := (tasks w)(taskRef \<mapsto> f d)\<rparr>)"

text \<open>
  A lifecycle operation returns the exception it throws or its response, together with
  the state it leaves behind.

  \<open>createTask\<close> up to and including \<open>collection.add(taskData)\<close>: the identifier and
  the data of the document it persists, and the state after the write.
\<close>

definition createTask_persist ::
  "env \<Rightarrow> world \<Rightarrow> CreateTaskDto \<Rightarrow> string
     \<Rightarrow> exn + string \<times> TaskDocument \<times> world" where
  "createTask_persist e w dto creatorUid =
     (case getTaskUser w creatorUid CREATOR_NOT_FOUND of
        Inl x \<Rightarrow> Inl x
      | Inr creator \<Rightarrow>
     (case findUserByEmail w (assignToEmail dto) of
        Inl x \<Rightarrow> Inl x
      | Inr (docId, assignee) \<Rightarrow>
          if docId = creatorUid then Inl (BadRequestException SELF_ASSIGNMENT)
          else
            (let (now0, w1) = now e w;
                 expiry = now0 + c_durationMinutes dto * TASK_TIME_MS_MINUTE;
                 taskData =
                   \<lparr> title = trim (c_title dto),
                     note' = map_option trim (c_note dto),
                     createdBy = creator,
                     assignedTo = assignee,
                     status = PENDING,
                     assigneeReaction = None,
                     urgency = \<lparr> expiresAt = expiry,
                                 durationMinutes = c_durationMinutes dto \<rparr>,
                     notification = \<lparr> sent = False, sentAt = None, error = None \<rparr>,
                     createdAt = now0,
                     updatedAt = now0,
                     ttl = expiry + DEFAULT_TTL_AFTER_EXPIRY,
                     extensionCount = Some 0 \<rparr>;
                 (taskRef, w2) = newId e w1
             in Inr (taskRef, taskData, w2\<lparr>tasks := (tasks w2)(taskRef \<mapsto> taskData)\<rparr>))))"

text \<open>
  The whole of \<open>createTask\<close>: the write above, then the assignment notification inside
  \<open>try\<close>/\<open>catch\<close>, then the response built from the local \<open>taskData\<close>.
\<close>

definition createTask ::
  "env \<Rightarrow> world \<Rightarrow> CreateTaskDto \<Rightarrow> string \<Rightarrow> (exn + TaskResponse) \<times> world" where
  "createTask e w dto creatorUid =
     (case createTask_persist e w dto creatorUid of
        Inl x \<Rightarrow> (Inl x, w)
      | Inr (taskRef, taskData, w3) \<Rightarrow>
          (let (thrown, w4) = sendTaskAssignmentNotification e w3 taskRef
                                (uid (assignedTo taskData)) (uid (createdBy taskData))
                                (name (createdBy taskData)) (c_title dto)
           in case thrown of
                None \<Rightarrow>
                  (let (notificationSentAt, w5) = now e w4;
                       w6 = update_task w5 taskRef
                              (\<lambda>d. d\<lparr>notification := (notification d)
                                       \<lparr>sent := True, sentAt := Some notificationSentAt\<rparr>\<rparr>);
                       (res, w7) = transformToResponse e w6 taskRef
                              (taskData\<lparr>notification :=
                                 \<lparr> sent = True, sentAt = Some notificationSentAt,
                                   error = None \<rparr>\<rparr>)
                   in (Inr res, w7))
              | Some err \<Rightarrow>
                  (let notificationError = message err;
                       w5 = update_task w4 taskRef
                              (\<lambda>d. d\<lparr>notification := (notification d)
                                       \<lparr>sent := False, error := Some notificationError\<rparr>\<rparr>);
                       (res, w6) = transformToResponse e w5 taskRef
                              (taskData\<lparr>notification :=
                                 \<lparr> sent = False, sentAt = None,
                                   error = Some notificationError \<rparr>\<rparr>)
                   in (Inr res, w6))))"

definition getTaskById ::
  "env \<Rightarrow> world \<Rightarrow> string \<Rightarrow> string \<Rightarrow> (exn + TaskResponse) \<times> world" where
  "getTaskById e w taskId userUid =
     (case getAuthorizedTask w taskId userUid of
        Inl x \<Rightarrow> (Inl x, w)
      | Inr task \<Rightarrow>
          if status task = PENDING
          then
            (let (expired, w1) = isExpired e w (expiresAt (urgency task))
             in if expired
                then
                  (let (n, w2) = now e w1;
                       w3 = update_task w2 taskId (\<lambda>d. d\<lparr>status := EXPIRED, updatedAt := n\<rparr>);
                       (res, w4) = transformToResponse e w3 taskId
                                     (task\<lparr>status := EXPIRED, updatedAt := n\<rparr>)
                   in (Inr res, w4))
                else (let (res, w2) = transformToResponse e w1 taskId task in (Inr res, w2)))
          else (let (res, w1) = transformToResponse e w taskId task in (Inr res, w1)))"

text \<open>
  \<open>userUid\<close> is optional in \<open>updateTaskStatus\<close>, and the authorization checks sit
  under \<open>if (userUid)\<close>: they are skipped for a missing and for an empty identifier.
\<close>

definition updateTaskStatus ::
  "env \<Rightarrow> world \<Rightarrow> string \<Rightarrow> TaskStatus \<Rightarrow> string option \<Rightarrow> (exn + TaskResponse) \<times> world" where
  "updateTaskStatus e w taskId st userUid =
     (case tasks w taskId of
        None \<Rightarrow> (Inl (NotFoundException TASK_NOT_FOUND), w)
      | Some taskData \<Rightarrow>
          if or_else userUid [] \<noteq> [] \<and> st = CANCELLED
             \<and> uid (createdBy taskData) \<noteq> or_else userUid []
          then (Inl (ForbiddenException ONLY_CREATOR_CAN_CANCEL), w)
          else if or_else userUid [] \<noteq> [] \<and> st = COMPLETED
             \<and> uid (assignedTo taskData) \<noteq> or_else userUid []
          then (Inl (ForbiddenException ONLY_ASSIGNEE_CAN_COMPLETE), w)
          else if status taskData = EXPIRED
          then (Inl (BadRequestException CANNOT_UPDATE_EXPIRED), w)
          else if status taskData = COMPLETED
          then (Inl (BadRequestException ALREADY_COMPLETED), w)
          else if status taskData = CANCELLED
          then (Inl (BadRequestException ALREADY_CANCELLED), w)
          else
            (let (n, w1) = now e w;
                 w2 = update_task w1 taskId (\<lambda>d. d\<lparr>status := st, updatedAt := n\<rparr>);
                 (res, w3) = transformToResponse e w2 taskId
                               (taskData\<lparr>status := st, updatedAt := n\<rparr>)
             in (Inr res, w3)))"

definition updateTaskReaction ::
  "env \<Rightarrow> world \<Rightarrow> string \<Rightarrow> TaskReaction \<Rightarrow> string \<Rightarrow> (exn + TaskResponse) \<times> world" where
  "updateTaskReaction e w taskId reaction userUid =
     (case tasks w taskId of
        None \<Rightarrow> (Inl (NotFoundException TASK_NOT_FOUND), w)
      | Some taskData \<Rightarrow>
          if uid (assignedTo taskData) \<noteq> userUid
          then (Inl (ForbiddenException ONLY_ASSIGNEE_CAN_REACT), w)
          else if status taskData \<noteq> PENDING
          then (Inl (BadRequestException CANNOT_REACT), w)
          else
            (let (n, w1) = now e w;
                 count0 = nullish (extensionCount taskData) 0
             in if reaction = RUNNING_LATE \<and> count0 \<ge> MAX_EXTENSIONS
                then (Inl (BadRequestException MAX_EXTENSIONS_MSG), w1)
                else
                  (let newExpiresAt =
                         (if reaction = RUNNING_LATE
                          then expiresAt (urgency taskData) + RUNNING_LATE_EXTENSION
                          else expiresAt (urgency taskData));
                       count1 = (if reaction = RUNNING_LATE then count0 + 1 else count0);
                       newTtl = newExpiresAt + DEFAULT_TTL_AFTER_EXPIRY;
                       w2 = update_task w1 taskId
                              (\<lambda>d. if reaction = RUNNING_LATE
                                    then d\<lparr>assigneeReaction := Some reaction,
                                           updatedAt := n,
                                           urgency := (urgency d)\<lparr>expiresAt := newExpiresAt\<rparr>,
                                           extensionCount := Some count1,
                                           ttl := newTtl\<rparr>
                                    else d\<lparr>assigneeReaction := Some reaction,
                                           updatedAt := n\<rparr>);
                       (thrown, w3) = sendTaskReactionNotification e w2 taskId
                                        (uid (createdBy taskData)) (uid (assignedTo taskData))
                                        (name (assignedTo taskData)) (title taskData)
                                        (TaskReaction_value reaction);
                       (res, w4) = transformToResponse e w3 taskId
                                     (taskData\<lparr>assigneeReaction := Some reaction,
                                               updatedAt := n,
                                               urgency := (urgency taskData)
                                                 \<lparr>expiresAt := newExpiresAt\<rparr>,
                                               extensionCount := Some count1\<rparr>)
                   in (Inr res, w4))))"

section \<open>TaskController\<close>

definition STATUS_UPDATED :: string where
  "STATUS_UPDATED = ''Task status updated successfully''"

text \<open>
  \<open>PATCH /tasks/:id/status\<close>. The body is validated by \<open>UpdateTaskStatusDto\<close>, which
  accepts each of the four members of \<open>TaskStatus\<close>; the requester is the
  authenticated user.
\<close>

definition TaskController_updateTaskStatus ::
  "env \<Rightarrow> world \<Rightarrow> string \<Rightarrow> TaskStatus \<Rightarrow> string
     \<Rightarrow> (exn + TaskResponse \<times> string) \<times> world" where
  "TaskController_updateTaskStatus e w taskId dto_status user_uid =
     (case updateTaskStatus e w taskId dto_status (Some user_uid) of
        (Inl x, w') \<Rightarrow> (Inl x, w')
      | (Inr task, w') \<Rightarrow> (Inr (task, STATUS_UPDATED), w'))"

section \<open>Sequences of calls\<close>

text \<open>
  The stored assignment notifications for a task and a recipient, and a sequence of
  dispatch triggers issued one after the other (a trigger that throws does not stop the
  later ones: its caller catches the exception).
\<close>

definition assignmentRecords ::
  "world \<Rightarrow> string \<Rightarrow> string \<Rightarrow> (string \<times> INotificationDocument) list" where
  "assignmentRecords w taskId recipient =
     filter (\<lambda>(k, n). n_taskId n = taskId \<and> recipientUid n = recipient \<and> n_type n = TASK_ASSIGNED)
       (notifications w)"

fun dispatchAll :: "env \<Rightarrow> ISendPushNotificationParams list \<Rightarrow> world \<Rightarrow> world" where
  "dispatchAll e [] w = w"
| "dispatchAll e (p # ps) w = dispatchAll e ps (snd (sendPushNotification e w p))"

text \<open>
  The reactions \<open>rs\<close> sent one after the other by the same user for the same task, each
  with its outcome; and the number of \<open>running_late\<close> reactions among them that were
  accepted.
\<close>

fun applyReactions ::
  "env \<Rightarrow> string \<Rightarrow> string \<Rightarrow> TaskReaction list \<Rightarrow> world
     \<Rightarrow> (TaskReaction \<times> (exn + TaskResponse)) list \<times> world" where
  "applyReactions e taskId userUid [] w = ([], w)"
| "applyReactions e taskId userUid (r # rs) w =
     (let (x, w1) = updateTaskReaction e w taskId r userUid;
          (xs, w2) = applyReactions e taskId userUid rs w1
      in ((r, x) # xs, w2))"

definition acceptedRunningLate :: "(TaskReaction \<times> (exn + TaskResponse)) list \<Rightarrow> nat" where
  "acceptedRunningLate xs = length (filter (\<lambda>(r, x). r = RUNNING_LATE \<and> \<not> isl x) xs)"

section \<open>Example states\<close>

text \<open>
  A small environment and store on which the operations are evaluated: Alice has
  assigned task \<open>t1\<close> to Bob, and the push service accepts every message. Carol has no
  push token, Dave has one of the wrong format, and there is no user \<open>erin\<close>.
\<close>

definition ex_env :: env where
  "ex_env = \<lparr> clock = (\<lambda>k. 1000000 + int k),
              autoId = (\<lambda>k. replicate (Suc k) (CHR ''n'')),
              isExpoPushToken = (\<lambda>t. take 18 t = ''ExponentPushToken[''),
              sendPushNotificationsAsync =
                (\<lambda>k m. Inr [ExpoPushSuccessTicket (Some ''ticket-1'')]) \<rparr>"

definition ex_users :: "(string \<times> FirebaseUser) list" where
  "ex_users =
     [(''alice'', \<lparr> fu_email = Some ''alice@x.io'', fu_name = Some ''Alice'',
                   fcmToken = Some ''ExponentPushToken[a]'' \<rparr>),
      (''bob'', \<lparr> fu_email = Some ''bob@x.io'', fu_name = Some ''Bob'',
                 fcmToken = Some ''ExponentPushToken[b]'' \<rparr>),
      (''carol'', \<lparr> fu_email = Some ''carol@x.io'', fu_name = Some ''Carol'',
                   fcmToken = None \<rparr>),
      (''dave'', \<lparr> fu_email = Some ''dave@x.io'', fu_name = Some ''Dave'',
                  fcmToken = Some ''not-a-token'' \<rparr>)]"

text \<open>The same environment with a push service that rejects every message.\<close>

definition ex_env_fail :: env where
  "ex_env_fail = ex_env\<lparr> sendPushNotificationsAsync :=
                   (\<lambda>k m. Inr [ExpoPushErrorTicket (Some ''DeviceNotRegistered'')]) \<rparr>"

definition ex_dto :: CreateTaskDto where
  "ex_dto = \<lparr> c_title = '' Buy milk '', c_note = None, c_durationMinutes = 30,
              assignToEmail = ''Bob@x.io'' \<rparr>"

definition ex_task :: TaskDocument where
  "ex_task =
     \<lparr> title = ''Buy milk'',
       note' = None,
       createdBy = \<lparr> uid = ''alice'', email = ''alice@x.io'', name = ''Alice'' \<rparr>,
       assignedTo = \<lparr> uid = ''bob'', email = ''bob@x.io'', name = ''Bob'' \<rparr>,
       status = PENDING,
       assigneeReaction = None,
       urgency = \<lparr> expiresAt = 2800000, durationMinutes = 30 \<rparr>,
       notification = \<lparr> sent = False, sentAt = None, error = None \<rparr>,
       createdAt = 1000000,
       updatedAt = 1000000,
       ttl = 607600000,
       extensionCount = Some 0 \<rparr>"

definition ex_world :: "TaskDocument \<Rightarrow> world" where
  "ex_world d = \<lparr> tasks = [''t1'' \<mapsto> d], notifications = [], users = ex_users,
                  pushed = [], ticks = 0, allocs = 0 \<rparr>"

text \<open>The assignment notification for task \<open>t1\<close>, addressed to \<open>recipient\<close>.\<close>

definition ex_params :: "string \<Rightarrow> ISendPushNotificationParams" where
  "ex_params recipient =
     \<lparr> p_taskId = ''t1'',
       p_recipientUid = recipient,
       p_senderUid = ''alice'',
       p_type = TASK_ASSIGNED,
       p_title = ''New task from Alice'',
       p_body = ''Buy milk'',
       p_dataType = ''task_assigned'' \<rparr>"

text \<open>What \<open>createTask\<close> persists on the example store when the push service rejects.\<close>

definition ex_persisted :: "string \<times> TaskDocument \<times> world" where
  "ex_persisted = projr (createTask_persist ex_env_fail (ex_world ex_task) ex_dto ''alice'')"

section \<open>Basic facts about the operations\<close>

lemma update_notification_frame [simp]:
  "tasks (update_notification w r f) = tasks w"
  "users (update_notification w r f) = users w"
  "pushed (update_notification w r f) = pushed w"
  "ticks (update_notification w r f) = ticks w"
  "allocs (update_notification w r f) = allocs w"
  by (simp_all add: update_notification_def)

lemma updateNotificationStatus_frame [simp]:
  "tasks (updateNotificationStatus w r st m) = tasks w"
  "users (updateNotificationStatus w r st m) = users w"
  "pushed (updateNotificationStatus w r st m) = pushed w"
  "ticks (updateNotificationStatus w r st m) = ticks w"
  "allocs (updateNotificationStatus w r st m) = allocs w"
  by (simp_all add: updateNotificationStatus_def)

lemma createNotificationRecord_frame [simp]:
  "tasks (snd (createNotificationRecord e w p)) = tasks w"
  "users (snd (createNotificationRecord e w p)) = users w"
  "pushed (snd (createNotificationRecord e w p)) = pushed w"
  "ticks (snd (createNotificationRecord e w p)) = Suc (ticks w)"
  "allocs (snd (createNotificationRecord e w p)) = Suc (allocs w)"
  "fst (createNotificationRecord e w p) = autoId e (allocs w)"
  by (simp_all add: createNotificationRecord_def now_def newId_def Let_def)

lemma sendExpoNotification_frame [simp]:
  "tasks (snd (sendExpoNotification e w r tok tid ti b dt)) = tasks w"
  "users (snd (sendExpoNotification e w r tok tid ti b dt)) = users w"
  by (simp_all add: sendExpoNotification_def now_def Let_def split_def
        split: sum.splits list.splits ExpoPushTicket.splits)

lemma sendPushNotification_frame [simp]:
  "tasks (snd (sendPushNotification e w p)) = tasks w"
  "users (snd (sendPushNotification e w p)) = users w"
  by (simp_all add: sendPushNotification_def getUser_def Let_def split_def split: option.splits)

lemma transformToResponse_world:
  "snd (transformToResponse e w t d) = w\<lparr>ticks := Suc (Suc (ticks w))\<rparr>"
  by (simp add: transformToResponse_def calculateRemainingMinutes_def isExpired_def now_def
        Let_def split_def)

lemma transformToResponse_frame [simp]:
  "tasks (snd (transformToResponse e w t d)) = tasks w"
  "users (snd (transformToResponse e w t d)) = users w"
  "pushed (snd (transformToResponse e w t d)) = pushed w"
  "notifications (snd (transformToResponse e w t d)) = notifications w"
  by (simp_all add: transformToResponse_world)

lemma transformToResponse_fields [simp]:
  "r_id (fst (transformToResponse e w t d)) = t"
  "r_status (fst (transformToResponse e w t d)) = status d"
  "r_assigneeReaction (fst (transformToResponse e w t d)) = assigneeReaction d"
  "r_extensionCount (fst (transformToResponse e w t d)) = nullish (extensionCount d) 0"
  "r_expiresAt (r_urgency (fst (transformToResponse e w t d))) = expiresAt (urgency d)"
  "r_createdAt (fst (transformToResponse e w t d)) = createdAt d"
  "r_updatedAt (fst (transformToResponse e w t d)) = updatedAt d"
  "r_notification (fst (transformToResponse e w t d)) =
     \<lparr> r_sent = sent (notification d), r_sentAt = sentAt (notification d),
       r_error = error (notification d) \<rparr>"
  by (simp_all add: transformToResponse_def calculateRemainingMinutes_def isExpired_def now_def
        Let_def split_def)

lemma updateTaskStatus_ok:
  assumes "tasks w taskId = Some d" and "status d = PENDING"
    and "\<not> (or_else userUid [] \<noteq> [] \<and> st = CANCELLED \<and> uid (createdBy d) \<noteq> or_else userUid [])"
    and "\<not> (or_else userUid [] \<noteq> [] \<and> st = COMPLETED \<and> uid (assignedTo d) \<noteq> or_else userUid [])"
  shows "updateTaskStatus e w taskId st userUid =
           (Inr (fst (transformToResponse e
                   (update_task (snd (now e w)) taskId (\<lambda>d. d\<lparr>status := st, updatedAt := fst (now e w)\<rparr>))
                   taskId (d\<lparr>status := st, updatedAt := fst (now e w)\<rparr>))),
            snd (transformToResponse e
                   (update_task (snd (now e w)) taskId (\<lambda>d. d\<lparr>status := st, updatedAt := fst (now e w)\<rparr>))
                   taskId (d\<lparr>status := st, updatedAt := fst (now e w)\<rparr>)))"
  using assms by (simp add: updateTaskStatus_def Let_def split_def)

lemma update_task_tasks:
  "tasks w t = Some d \<Longrightarrow> tasks (update_task w t f) = (tasks w)(t \<mapsto> f d)"
  by (simp add: update_task_def)

lemma now_frame [simp]:
  "fst (now e w) = clock e (ticks w)"
  "tasks (snd (now e w)) = tasks w"
  "notifications (snd (now e w)) = notifications w"
  "users (snd (now e w)) = users w"
  "pushed (snd (now e w)) = pushed w"
  "ticks (snd (now e w)) = Suc (ticks w)"
  "allocs (snd (now e w)) = allocs w"
  by (simp_all add: now_def)


section \<open>Pagination\<close>

lemma round_half_even_le:
  assumes "y \<le> of_int c"
  shows "round_half_even y \<le> c"
proof -
  have f: "\<lfloor>y\<rfloor> \<le> c" using assms by (simp add: floor_le_iff)
  show ?thesis
  proof (cases "y = of_int \<lfloor>y\<rfloor>")
    case True
    then have "y - of_int \<lfloor>y\<rfloor> = 0" by simp
    then show ?thesis using f by (simp add: round_half_even_def Let_def)
  next
    case False
    then have "of_int \<lfloor>y\<rfloor> < y" using of_int_floor_le [of y] by linarith
    then have "of_int \<lfloor>y\<rfloor> < (of_int c :: rat)" using assms by linarith
    then have "\<lfloor>y\<rfloor> + 1 \<le> c" by simp
    then show ?thesis using f by (auto simp: round_half_even_def Let_def)
  qed
qed

lemma round_half_even_gt:
  assumes "of_int c + 1 / 2 < y"
  shows "c < round_half_even y"
proof -
  have "of_int c < y" using assms by linarith
  then have f: "c \<le> \<lfloor>y\<rfloor>" by (simp add: le_floor_iff)
  show ?thesis
  proof (cases "c = \<lfloor>y\<rfloor>")
    case True
    then have "1 / 2 < y - of_int \<lfloor>y\<rfloor>" using assms by simp
    then show ?thesis using True by (simp add: round_half_even_def Let_def)
  next
    case False
    then have "c < \<lfloor>y\<rfloor>" using f by simp
    then show ?thesis by (auto simp: round_half_even_def Let_def)
  qed
qed

lemma binade_le:
  assumes "0 < a" and "0 < b"
  shows "2 powi (binade a b) \<le> rat_of_int a / rat_of_int b"
proof (cases "2 powi (bitlen a - bitlen b) \<le> rat_of_int a / rat_of_int b")
  case True
  then show ?thesis by (simp add: binade_def)
next
  case False
  have ba: "2 ^ nat (bitlen a - 1) \<le> a" and bb: "b < 2 ^ nat (bitlen b)"
    using bitlen_bounds [OF assms(1)] bitlen_bounds [OF assms(2)] by simp_all
  have pa: "1 \<le> bitlen a" using assms(1) by (simp add: bitlen_alt_def)
  have pb: "0 \<le> bitlen b" by (rule bitlen_nonneg)
  have "(2::rat) powi (bitlen a - 1) = 2 ^ nat (bitlen a - 1)"
    using pa by (simp add: power_int_def)
  also have "\<dots> = rat_of_int (2 ^ nat (bitlen a - 1))" by simp
  also have "\<dots> \<le> rat_of_int a" using ba by (simp only: of_int_le_iff)
  finally have A: "(2::rat) powi (bitlen a - 1) \<le> rat_of_int a" .
  have "rat_of_int b \<le> rat_of_int (2 ^ nat (bitlen b))"
    using bb by (simp only: of_int_le_iff)
  also have "\<dots> = (2::rat) powi (bitlen b)" using pb by (simp add: power_int_def)
  finally have B: "rat_of_int b \<le> 2 powi (bitlen b)" .
  have b0: "0 < rat_of_int b" using assms(2) by simp
  have "(2::rat) powi (bitlen a - bitlen b - 1) = 2 powi (bitlen a - 1) / 2 powi (bitlen b)"
    by (simp add: power_int_diff)
  also have "\<dots> \<le> rat_of_int a / 2 powi (bitlen b)"
    using A by (simp add: divide_right_mono)
  also have "\<dots> \<le> rat_of_int a / rat_of_int b"
    using B b0 assms(1) by (simp add: divide_left_mono)
  finally show ?thesis using False by (simp add: binade_def)
qed

text \<open>
  Below \<open>2^53\<close> the rounding of the quotient does not change its ceiling: the rounded
  value is a multiple of \<open>2^(e - 52)\<close> with \<open>e \<le> 52\<close>, every integer is such a
  multiple, and the quotient lies at least \<open>1 / limit\<close> above the integer below it,
  which is more than half a step.
\<close>

lemma ceiling_js_divide:
  assumes "0 < n" and "n < 2 ^ 53" and "0 < l"
  shows "\<lceil>js_divide n l\<rceil> = \<lceil>rat_of_int n / rat_of_int l\<rceil>"
proof -
  define x where "x = rat_of_int n / rat_of_int l"
  define e where "e = binade n l"
  define j where "j = nat (52 - e)"
  define c where "c = \<lceil>x\<rceil>"
  have l0: "0 < rat_of_int l" and n0: "0 < rat_of_int n" using assms by simp_all
  have x0: "0 < x" using l0 n0 by (simp add: x_def)
  have e_le: "2 powi e \<le> x"
    unfolding e_def x_def using binade_le [OF assms(1,3)] .
  have "rat_of_int n < rat_of_int (2 ^ 53)" using assms(2) by (simp only: of_int_less_iff)
  then have n53: "rat_of_int n < 2 ^ 53" by simp
  have "x \<le> rat_of_int n"
  proof -
    have "1 \<le> rat_of_int l" using assms(3) by simp
    then have "rat_of_int n / rat_of_int l \<le> rat_of_int n / 1"
      using n0 by (intro divide_left_mono) simp_all
    then show ?thesis by (simp add: x_def)
  qed
  then have x53: "x < 2 ^ 53" using n53 by linarith
  have e52: "e \<le> 52"
  proof (rule ccontr)
    assume "\<not> e \<le> 52"
    then have "53 \<le> e" by simp
    then have "(2::rat) powi 53 \<le> 2 powi e" by (intro power_int_increasing) simp_all
    moreover have "(2::rat) powi 53 = 2 ^ 53" by (simp add: power_int_def)
    ultimately show False using e_le x53 by linarith
  qed
  have e_eq: "e = 52 - int j" using e52 by (simp add: j_def)
  have scale: "(2::rat) powi (e - 52) = 1 / 2 ^ j"
    unfolding e_eq by (simp add: power_int_def field_simps)
  have pe: "(2::rat) powi e = 2 ^ 52 / 2 ^ j"
    unfolding e_eq by (simp add: power_int_diff)
  define m where "m = round_half_even (x * 2 ^ j)"
  have val: "js_divide n l = rat_of_int m / 2 ^ j"
    using assms(1,3) x0
    by (simp add: js_divide_def Let_def x_def [symmetric] e_def [symmetric] scale m_def
          abs_of_pos)
  have p0: "(0::rat) < 2 ^ j" by simp
  \<comment> \<open>the rounded value does not exceed the ceiling\<close>
  have "x \<le> rat_of_int c" by (simp add: c_def)
  then have "x * 2 ^ j \<le> rat_of_int c * 2 ^ j" using p0 by (simp add: mult_right_mono)
  then have "x * 2 ^ j \<le> rat_of_int (c * 2 ^ j)" by simp
  then have "m \<le> c * 2 ^ j" unfolding m_def by (rule round_half_even_le)
  then have "rat_of_int m \<le> rat_of_int (c * 2 ^ j)" by (simp only: of_int_le_iff)
  then have upper: "rat_of_int m / 2 ^ j \<le> rat_of_int c"
    using p0 by (simp add: field_simps)
  \<comment> \<open>and stays above the integer below it\<close>
  have "rat_of_int (c - 1) < x" unfolding c_def using ceiling_correct [of x] by simp
  then have "rat_of_int (c - 1) * rat_of_int l < rat_of_int n"
    using l0 by (simp add: x_def field_simps)
  then have "rat_of_int ((c - 1) * l) < rat_of_int n" by simp
  then have "(c - 1) * l < n" by (simp only: of_int_less_iff)
  then have "1 \<le> n - (c - 1) * l" by simp
  then have "rat_of_int 1 \<le> rat_of_int (n - (c - 1) * l)" by (simp only: of_int_le_iff)
  then have gap: "1 \<le> rat_of_int n - rat_of_int (c - 1) * rat_of_int l" by simp
  have "2 ^ 52 / 2 ^ j * rat_of_int l \<le> rat_of_int n"
    using e_le l0 unfolding pe x_def by (simp add: field_simps)
  then have "2 ^ 52 / 2 ^ j * rat_of_int l < 2 ^ 53" using n53 by linarith
  then have lj: "rat_of_int l < 2 * 2 ^ j" using p0 by (simp add: field_simps)
  have "1 / 2 < 2 ^ j / rat_of_int l" using lj l0 by (simp add: field_simps)
  also have "\<dots> \<le> (rat_of_int n - rat_of_int (c - 1) * rat_of_int l) * (2 ^ j / rat_of_int l)"
  proof -
    have "0 \<le> 2 ^ j / rat_of_int l" using p0 l0 by simp
    from mult_right_mono [OF gap this] show ?thesis by simp
  qed
  also have "\<dots> = x * 2 ^ j - rat_of_int ((c - 1) * 2 ^ j)"
    using l0 by (simp add: x_def field_simps)
  finally have "rat_of_int ((c - 1) * 2 ^ j) + 1 / 2 < x * 2 ^ j" by linarith
  then have "(c - 1) * 2 ^ j < m" unfolding m_def by (rule round_half_even_gt)
  then have "rat_of_int ((c - 1) * 2 ^ j) < rat_of_int m" by (simp only: of_int_less_iff)
  then have lower: "rat_of_int c - 1 < rat_of_int m / 2 ^ j"
    using p0 by (simp add: field_simps)
  have "\<lceil>rat_of_int m / 2 ^ j\<rceil> = c"
    using lower upper by (intro ceiling_unique) simp_all
  then show ?thesis by (simp add: val c_def x_def)
qed

lemma ceil_div_exact:
  assumes "0 \<le> n" and "n < 2 ^ 53" and "1 \<le> limit"
  shows "ceil_div n limit = Finite \<lceil>rat_of_int n / rat_of_int limit\<rceil>"
proof (cases "n = 0")
  case True
  then show ?thesis using assms(3) by (simp add: ceil_div_def js_divide_def)
next
  case False
  then have "0 < n" using assms(1) by simp
  from ceiling_js_divide [OF this assms(2), of limit] assms(3)
  show ?thesis by (simp add: ceil_div_def)
qed

lemma less_ceiling_quotient:
  fixes p t l :: int
  assumes "0 < l"
  shows "p < \<lceil>rat_of_int t / rat_of_int l\<rceil> \<longleftrightarrow> p * l < t"
proof -
  have pos: "0 < rat_of_int l" using assms by simp
  have "p < \<lceil>rat_of_int t / rat_of_int l\<rceil> \<longleftrightarrow> rat_of_int p < rat_of_int t / rat_of_int l"
    by (simp add: less_ceiling_iff)
  also have "\<dots> \<longleftrightarrow> rat_of_int p * rat_of_int l < rat_of_int t"
    using pos by (simp add: pos_less_divide_eq)
  also have "\<dots> \<longleftrightarrow> rat_of_int (p * l) < rat_of_int t"
    by simp
  also have "\<dots> \<longleftrightarrow> p * l < t"
    by (simp only: of_int_less_iff)
  finally show ?thesis .
qed

text \<open>
  Claim C9, as the code has it. For a list request with page \<open>\<ge> 1\<close>, page size
  \<open>\<ge> 1\<close> and an item count from 0 up to, but not including, \<open>2^53\<close>, the metadata
  built by \<open>buildPaginationMeta\<close> has \<open>totalPages = ceil(totalItems / pageSize)\<close>,
  \<open>hasPreviousPage\<close> exactly when \<open>page > 1\<close>, and \<open>hasNextPage\<close> exactly when
  \<open>page * pageSize < totalItems\<close>: for these counts the implementation's test
  \<open>page < totalPages\<close> is equivalent to that inequality.
\<close>

theorem C9_pagination_meta:
  assumes "1 \<le> page" and "1 \<le> limit" and "0 \<le> n" and "n < 2 ^ 53"
  shows "totalPages (buildPaginationMeta n page limit)
           = Finite \<lceil>rat_of_int n / rat_of_int limit\<rceil>
       \<and> (hasPreviousPage (buildPaginationMeta n page limit) \<longleftrightarrow> page > 1)
       \<and> (hasNextPage (buildPaginationMeta n page limit) \<longleftrightarrow> page * limit < n)
       \<and> (js_less page (totalPages (buildPaginationMeta n page limit))
            \<longleftrightarrow> page * limit < n)"
proof -
  have l: "0 < limit" using assms(2) by simp
  note tp = ceil_div_exact [OF assms(3,4,2)]
  show ?thesis
    using less_ceiling_quotient [OF l, of page n]
    by (simp add: buildPaginationMeta_def Let_def tp)
qed

theorem C9_pagination_meta_witness:
  "(1::int) \<le> 2 \<and> (1::int) \<le> 20 \<and> (0::int) \<le> 45 \<and> (45::int) < 2 ^ 53
   \<and> totalPages (buildPaginationMeta 45 2 20) = Finite 3
   \<and> hasPreviousPage (buildPaginationMeta 45 2 20)
   \<and> hasNextPage (buildPaginationMeta 45 2 20)
   \<and> \<not> hasNextPage (buildPaginationMeta 40 2 20)"
proof -
  have a: "(1::int) \<le> 2" and b: "(1::int) \<le> 20" and c: "(0::int) \<le> 45" and d: "(0::int) \<le> 40"
    and c': "(45::int) < 2 ^ 53" and d': "(40::int) < 2 ^ 53"
    by simp_all
  have c45: "\<lceil>rat_of_int 45 / rat_of_int 20\<rceil> = 3"
    by (simp add: ceiling_eq_iff)
  show ?thesis
    using C9_pagination_meta [OF a b c c'] C9_pagination_meta [OF a b d d'] c45 c'
    by simp
qed

text \<open>
  From \<open>2^53\<close> on the equivalence can fail. With 13510798882111492 items, three to a
  page, the exact quotient is 4503599627370497 and a third; the nearest double is
  4503599627370497, which \<open>Math.ceil\<close> leaves as it is. So on page 4503599627370497
  there is no next page according to the metadata, although \<open>page * limit\<close> is less
  than the number of items.
\<close>

theorem C9_counterexample:
  "(1::int) \<le> 4503599627370497 \<and> (1::int) \<le> 3 \<and> (0::int) \<le> 13510798882111492
   \<and> (4503599627370497::int) * 3 < 13510798882111492
   \<and> \<lceil>rat_of_int 13510798882111492 / rat_of_int 3\<rceil> = 4503599627370498
   \<and> totalPages (buildPaginationMeta 13510798882111492 4503599627370497 3)
       = Finite 4503599627370497
   \<and> \<not> hasNextPage (buildPaginationMeta 13510798882111492 4503599627370497 3)"
  by code_simp

section \<open>Who may change a status\<close>

text \<open>
  Claim C10. \<open>updateTaskStatus\<close> throws \<open>ForbiddenException\<close> in exactly two cases: a
  requester is given, and either the target status is \<open>cancelled\<close> and the requester is
  not the creator, or the target status is \<open>completed\<close> and the requester is not the
  assignee. For the target statuses \<open>expired\<close> and \<open>pending\<close> there is no membership
  check: on a pending task the status endpoint, called by any user \<open>u\<close> whatever (so
  also one who is neither creator nor assignee), succeeds and stores the new status.
\<close>

theorem C10_forbidden_cases:
  "((\<exists>m. fst (updateTaskStatus e w taskId st userUid) = Inl (ForbiddenException m)) \<longleftrightarrow>
      (\<exists>d u. tasks w taskId = Some d \<and> userUid = Some u \<and> u \<noteq> [] \<and>
         ((st = CANCELLED \<and> uid (createdBy d) \<noteq> u) \<or>
          (st = COMPLETED \<and> uid (assignedTo d) \<noteq> u))))
   \<and> (\<forall>d. tasks w taskId = Some d \<and> status d = PENDING \<and> (st = EXPIRED \<or> st = PENDING)
          \<longrightarrow> (\<exists>res w'. TaskController_updateTaskStatus e w taskId st u
                            = (Inr (res, STATUS_UPDATED), w')
                 \<and> r_status res = st
                 \<and> tasks w' = (tasks w)(taskId \<mapsto> d\<lparr>status := st, updatedAt := clock e (ticks w)\<rparr>)))"
proof (intro conjI allI impI)
  show "(\<exists>m. fst (updateTaskStatus e w taskId st userUid) = Inl (ForbiddenException m)) \<longleftrightarrow>
      (\<exists>d u. tasks w taskId = Some d \<and> userUid = Some u \<and> u \<noteq> [] \<and>
         ((st = CANCELLED \<and> uid (createdBy d) \<noteq> u) \<or>
          (st = COMPLETED \<and> uid (assignedTo d) \<noteq> u)))"
    by (cases "tasks w taskId"; cases userUid)
       (auto simp: updateTaskStatus_def or_else_def Let_def split_def)
next
  fix d
  assume a: "tasks w taskId = Some d \<and> status d = PENDING \<and> (st = EXPIRED \<or> st = PENDING)"
  then have s: "st \<noteq> CANCELLED" "st \<noteq> COMPLETED" by auto
  have "updateTaskStatus e w taskId st (Some u) =
           (Inr (fst (transformToResponse e
                   (update_task (snd (now e w)) taskId (\<lambda>d. d\<lparr>status := st, updatedAt := fst (now e w)\<rparr>))
                   taskId (d\<lparr>status := st, updatedAt := fst (now e w)\<rparr>))),
            snd (transformToResponse e
                   (update_task (snd (now e w)) taskId (\<lambda>d. d\<lparr>status := st, updatedAt := fst (now e w)\<rparr>))
                   taskId (d\<lparr>status := st, updatedAt := fst (now e w)\<rparr>)))"
    using a s by (intro updateTaskStatus_ok) simp_all
  then show "\<exists>res w'. TaskController_updateTaskStatus e w taskId st u
                            = (Inr (res, STATUS_UPDATED), w')
                 \<and> r_status res = st
                 \<and> tasks w' = (tasks w)(taskId \<mapsto> d\<lparr>status := st, updatedAt := clock e (ticks w)\<rparr>)"
    using a by (simp add: TaskController_updateTaskStatus_def update_task_tasks)
qed

theorem C10_forbidden_cases_witness:
  "tasks (ex_world ex_task) ''t1'' = Some ex_task \<and> status ex_task = PENDING
   \<and> uid (createdBy ex_task) \<noteq> ''mallory'' \<and> uid (assignedTo ex_task) \<noteq> ''mallory''
   \<and> (\<exists>res w'. TaskController_updateTaskStatus ex_env (ex_world ex_task) ''t1'' EXPIRED ''mallory''
                   = (Inr (res, STATUS_UPDATED), w')
         \<and> r_status res = EXPIRED
         \<and> tasks w' ''t1'' = Some (ex_task\<lparr>status := EXPIRED, updatedAt := 1000000\<rparr>))
   \<and> (\<exists>m. fst (updateTaskStatus ex_env (ex_world ex_task) ''t1'' CANCELLED (Some ''mallory''))
             = Inl (ForbiddenException m))"
proof -
  have t: "tasks (ex_world ex_task) ''t1'' = Some ex_task" by (simp add: ex_world_def)
  have p: "status ex_task = PENDING" by (simp add: ex_task_def)
  have c: "clock ex_env (ticks (ex_world ex_task)) = 1000000"
    by (simp add: ex_env_def ex_world_def)
  have u: "uid (createdBy ex_task) \<noteq> ''mallory''" "uid (assignedTo ex_task) \<noteq> ''mallory''"
    by (simp_all add: ex_task_def)
  from C10_forbidden_cases [of ex_env "ex_world ex_task" "''t1''" EXPIRED "Some ''mallory''" "''mallory''"]
  have 1: "\<exists>res w'. TaskController_updateTaskStatus ex_env (ex_world ex_task) ''t1'' EXPIRED ''mallory''
                   = (Inr (res, STATUS_UPDATED), w')
         \<and> r_status res = EXPIRED
         \<and> tasks w' ''t1'' = Some (ex_task\<lparr>status := EXPIRED, updatedAt := 1000000\<rparr>)"
    using t p c by fastforce
  from C10_forbidden_cases [of ex_env "ex_world ex_task" "''t1''" CANCELLED "Some ''mallory''" "''mallory''"]
  have 2: "\<exists>m. fst (updateTaskStatus ex_env (ex_world ex_task) ''t1'' CANCELLED (Some ''mallory''))
             = Inl (ForbiddenException m)"
    using t u by simp
  show ?thesis using t p u 1 2 by blast
qed

section \<open>Terminal states are closed\<close>

lemma updateTaskStatus_terminal:
  assumes "tasks w taskId = Some d" and "status d \<noteq> PENDING"
  shows "updateTaskStatus e w taskId st userUid =
           (Inl (if \<exists>u. userUid = Some u \<and> u \<noteq> [] \<and> st = CANCELLED \<and> uid (createdBy d) \<noteq> u
                 then ForbiddenException ONLY_CREATOR_CAN_CANCEL
                 else if \<exists>u. userUid = Some u \<and> u \<noteq> [] \<and> st = COMPLETED \<and> uid (assignedTo d) \<noteq> u
                 then ForbiddenException ONLY_ASSIGNEE_CAN_COMPLETE
                 else if status d = EXPIRED then BadRequestException CANNOT_UPDATE_EXPIRED
                 else if status d = COMPLETED then BadRequestException ALREADY_COMPLETED
                 else BadRequestException ALREADY_CANCELLED), w)"
  using assms
  by (cases userUid; cases "status d")
     (auto simp: updateTaskStatus_def or_else_def)

lemma updateTaskReaction_terminal:
  assumes "tasks w taskId = Some d" and "status d \<noteq> PENDING"
  shows "updateTaskReaction e w taskId r u =
           (Inl (if uid (assignedTo d) \<noteq> u then ForbiddenException ONLY_ASSIGNEE_CAN_REACT
                 else BadRequestException CANNOT_REACT), w)"
  using assms by (simp add: updateTaskReaction_def)

lemma updateTaskStatus_Inr_pending:
  assumes "updateTaskStatus e w taskId st userUid = (Inr res, w')"
  shows "\<exists>d. tasks w taskId = Some d \<and> status d = PENDING"
proof (cases "tasks w taskId")
  case None
  with assms show ?thesis by (simp add: updateTaskStatus_def)
next
  case (Some d)
  show ?thesis
  proof (cases "status d = PENDING")
    case True
    with Some show ?thesis by simp
  next
    case False
    from updateTaskStatus_terminal [OF Some False, of e st userUid] assms
    show ?thesis by simp
  qed
qed

lemma updateTaskReaction_Inr_pending:
  assumes "updateTaskReaction e w taskId r u = (Inr res, w')"
  shows "\<exists>d. tasks w taskId = Some d \<and> status d = PENDING"
proof (cases "tasks w taskId")
  case None
  with assms show ?thesis by (simp add: updateTaskReaction_def)
next
  case (Some d)
  show ?thesis
  proof (cases "status d = PENDING")
    case True
    with Some show ?thesis by simp
  next
    case False
    from updateTaskReaction_terminal [OF Some False, of e r u] assms
    show ?thesis by simp
  qed
qed

lemma reasons_distinct:
  "CANNOT_UPDATE_EXPIRED \<noteq> ALREADY_COMPLETED"
  "CANNOT_UPDATE_EXPIRED \<noteq> ALREADY_CANCELLED"
  "ALREADY_COMPLETED \<noteq> ALREADY_CANCELLED"
  by (simp_all add: CANNOT_UPDATE_EXPIRED_def ALREADY_COMPLETED_def ALREADY_CANCELLED_def)

text \<open>
  Claim C1, as the code has it. For a task whose stored status is \<open>completed\<close>,
  \<open>cancelled\<close> or \<open>expired\<close>, every \<open>updateTaskStatus\<close> call and every
  \<open>updateTaskReaction\<close> call fails and leaves the state as it was. The authorization
  checks come first: a \<open>cancelled\<close> request by a requester who is not the creator, and a
  \<open>completed\<close> request by one who is not the assignee, fail with \<open>ForbiddenException\<close>;
  every other \<open>updateTaskStatus\<close> call fails with the reason of the stored state
  (\<open>ALREADY_COMPLETED\<close>, \<open>ALREADY_CANCELLED\<close>, \<open>CANNOT_UPDATE_EXPIRED\<close>, three
  different messages). \<open>updateTaskReaction\<close> fails with \<open>CANNOT_REACT\<close> when the
  requester is the assignee and with \<open>ForbiddenException\<close> otherwise. A call of either
  operation that succeeds found the task \<open>pending\<close>.
\<close>

theorem C1_terminal_states_closed:
  "(\<forall>d. tasks w taskId = Some d \<and> status d \<in> {COMPLETED, CANCELLED, EXPIRED} \<longrightarrow>
       (\<exists>x. updateTaskStatus e w taskId st userUid = (Inl x, w)
          \<and> ((\<exists>q. userUid = Some q \<and> q \<noteq> [] \<and> st = CANCELLED \<and> uid (createdBy d) \<noteq> q)
                \<longrightarrow> x = ForbiddenException ONLY_CREATOR_CAN_CANCEL)
          \<and> ((\<exists>q. userUid = Some q \<and> q \<noteq> [] \<and> st = COMPLETED \<and> uid (assignedTo d) \<noteq> q)
                \<longrightarrow> x = ForbiddenException ONLY_ASSIGNEE_CAN_COMPLETE)
          \<and> (\<not> (\<exists>q. userUid = Some q \<and> q \<noteq> [] \<and>
                    ((st = CANCELLED \<and> uid (createdBy d) \<noteq> q) \<or>
                     (st = COMPLETED \<and> uid (assignedTo d) \<noteq> q)))
                \<longrightarrow> (status d = COMPLETED \<longrightarrow> x = BadRequestException ALREADY_COMPLETED)
                  \<and> (status d = CANCELLED \<longrightarrow> x = BadRequestException ALREADY_CANCELLED)
                  \<and> (status d = EXPIRED \<longrightarrow> x = BadRequestException CANNOT_UPDATE_EXPIRED)))
     \<and> (\<exists>y. updateTaskReaction e w taskId r u = (Inl y, w)
          \<and> (uid (assignedTo d) = u \<longrightarrow> y = BadRequestException CANNOT_REACT)
          \<and> (uid (assignedTo d) \<noteq> u \<longrightarrow> y = ForbiddenException ONLY_ASSIGNEE_CAN_REACT)))
   \<and> (\<forall>res w'. updateTaskStatus e w taskId st userUid = (Inr res, w')
         \<longrightarrow> (\<exists>d. tasks w taskId = Some d \<and> status d = PENDING))
   \<and> (\<forall>res w'. updateTaskReaction e w taskId r u = (Inr res, w')
         \<longrightarrow> (\<exists>d. tasks w taskId = Some d \<and> status d = PENDING))
   \<and> CANNOT_UPDATE_EXPIRED \<noteq> ALREADY_COMPLETED
   \<and> CANNOT_UPDATE_EXPIRED \<noteq> ALREADY_CANCELLED
   \<and> ALREADY_COMPLETED \<noteq> ALREADY_CANCELLED"
proof (intro conjI allI impI)
  fix d
  assume a: "tasks w taskId = Some d \<and> status d \<in> {COMPLETED, CANCELLED, EXPIRED}"
  then have t: "tasks w taskId = Some d" and np: "status d \<noteq> PENDING" by auto
  show "\<exists>x. updateTaskStatus e w taskId st userUid = (Inl x, w)
          \<and> ((\<exists>q. userUid = Some q \<and> q \<noteq> [] \<and> st = CANCELLED \<and> uid (createdBy d) \<noteq> q)
                \<longrightarrow> x = ForbiddenException ONLY_CREATOR_CAN_CANCEL)
          \<and> ((\<exists>q. userUid = Some q \<and> q \<noteq> [] \<and> st = COMPLETED \<and> uid (assignedTo d) \<noteq> q)
                \<longrightarrow> x = ForbiddenException ONLY_ASSIGNEE_CAN_COMPLETE)
          \<and> (\<not> (\<exists>q. userUid = Some q \<and> q \<noteq> [] \<and>
                    ((st = CANCELLED \<and> uid (createdBy d) \<noteq> q) \<or>
                     (st = COMPLETED \<and> uid (assignedTo d) \<noteq> q)))
                \<longrightarrow> (status d = COMPLETED \<longrightarrow> x = BadRequestException ALREADY_COMPLETED)
                  \<and> (status d = CANCELLED \<longrightarrow> x = BadRequestException ALREADY_CANCELLED)
                  \<and> (status d = EXPIRED \<longrightarrow> x = BadRequestException CANNOT_UPDATE_EXPIRED))"
    unfolding updateTaskStatus_terminal [OF t np] by auto
  show "\<exists>y. updateTaskReaction e w taskId r u = (Inl y, w)
          \<and> (uid (assignedTo d) = u \<longrightarrow> y = BadRequestException CANNOT_REACT)
          \<and> (uid (assignedTo d) \<noteq> u \<longrightarrow> y = ForbiddenException ONLY_ASSIGNEE_CAN_REACT)"
    unfolding updateTaskReaction_terminal [OF t np] by simp
next
  fix res w'
  assume "updateTaskStatus e w taskId st userUid = (Inr res, w')"
  then show "\<exists>d. tasks w taskId = Some d \<and> status d = PENDING"
    by (rule updateTaskStatus_Inr_pending)
next
  fix res w'
  assume "updateTaskReaction e w taskId r u = (Inr res, w')"
  then show "\<exists>d. tasks w taskId = Some d \<and> status d = PENDING"
    by (rule updateTaskReaction_Inr_pending)
qed (simp_all add: reasons_distinct)

theorem C1_terminal_states_closed_witness:
  "tasks (ex_world (ex_task\<lparr>status := COMPLETED\<rparr>)) ''t1'' = Some (ex_task\<lparr>status := COMPLETED\<rparr>)
   \<and> status (ex_task\<lparr>status := COMPLETED\<rparr>) \<in> {COMPLETED, CANCELLED, EXPIRED}
   \<and> updateTaskStatus ex_env (ex_world (ex_task\<lparr>status := COMPLETED\<rparr>)) ''t1'' CANCELLED (Some ''alice'')
       = (Inl (BadRequestException ALREADY_COMPLETED), ex_world (ex_task\<lparr>status := COMPLETED\<rparr>))
   \<and> updateTaskReaction ex_env (ex_world (ex_task\<lparr>status := COMPLETED\<rparr>)) ''t1'' ON_IT ''bob''
       = (Inl (BadRequestException CANNOT_REACT), ex_world (ex_task\<lparr>status := COMPLETED\<rparr>))"
proof -
  let ?d = "ex_task\<lparr>status := COMPLETED\<rparr>"
  have t: "tasks (ex_world ?d) ''t1'' = Some ?d" by (simp add: ex_world_def)
  have s: "status ?d \<in> {COMPLETED, CANCELLED, EXPIRED}" "status ?d = COMPLETED" by simp_all
  have u: "uid (createdBy ?d) = ''alice''" "uid (assignedTo ?d) = ''bob''"
    by (simp_all add: ex_task_def)
  from C1_terminal_states_closed
         [of "ex_world ?d" "''t1''" ex_env CANCELLED "Some ''alice''" ON_IT "''bob''"] t s u
  show ?thesis by auto
qed

text \<open>
  The reason is not always the one of the stored state: on a completed task, a
  \<open>cancelled\<close> request by the assignee is refused as \<open>ONLY_CREATOR_CAN_CANCEL\<close>, and a
  reaction by the creator as \<open>ONLY_ASSIGNEE_CAN_REACT\<close>.
\<close>

theorem C1_counterexample:
  "tasks (ex_world (ex_task\<lparr>status := COMPLETED\<rparr>)) ''t1'' = Some (ex_task\<lparr>status := COMPLETED\<rparr>)
   \<and> status (ex_task\<lparr>status := COMPLETED\<rparr>) = COMPLETED
   \<and> fst (updateTaskStatus ex_env (ex_world (ex_task\<lparr>status := COMPLETED\<rparr>)) ''t1'' CANCELLED
            (Some ''bob''))
       = Inl (ForbiddenException ONLY_CREATOR_CAN_CANCEL)
   \<and> fst (updateTaskStatus ex_env (ex_world (ex_task\<lparr>status := COMPLETED\<rparr>)) ''t1'' CANCELLED
            (Some ''bob''))
       \<noteq> Inl (BadRequestException ALREADY_COMPLETED)
   \<and> fst (updateTaskReaction ex_env (ex_world (ex_task\<lparr>status := COMPLETED\<rparr>)) ''t1'' ON_IT
            ''alice'')
       = Inl (ForbiddenException ONLY_ASSIGNEE_CAN_REACT)
   \<and> fst (updateTaskReaction ex_env (ex_world (ex_task\<lparr>status := COMPLETED\<rparr>)) ''t1'' ON_IT
            ''alice'')
       \<noteq> Inl (BadRequestException CANNOT_REACT)"
  by (simp add: updateTaskStatus_def updateTaskReaction_def ex_world_def ex_task_def or_else_def)

section \<open>Reactions and the extension policy\<close>

lemma sendTaskReactionNotification_frame [simp]:
  "tasks (snd (sendTaskReactionNotification e w t c a an tt r)) = tasks w"
  "users (snd (sendTaskReactionNotification e w t c a an tt r)) = users w"
  by (simp_all add: sendTaskReactionNotification_def Let_def)

lemma sendTaskAssignmentNotification_frame [simp]:
  "tasks (snd (sendTaskAssignmentNotification e w t a c cn tt)) = tasks w"
  "users (snd (sendTaskAssignmentNotification e w t a c cn tt)) = users w"
  by (simp_all add: sendTaskAssignmentNotification_def)

lemma updateTaskReaction_limit:
  assumes "tasks w taskId = Some d" and "status d = PENDING" and "uid (assignedTo d) = u"
    and "MAX_EXTENSIONS \<le> nullish (extensionCount d) 0"
  shows "updateTaskReaction e w taskId RUNNING_LATE u
           = (Inl (BadRequestException MAX_EXTENSIONS_MSG), snd (now e w))"
  using assms by (simp add: updateTaskReaction_def Let_def split_def)

text \<open>The document an accepted reaction stores.\<close>

lemma updateTaskReaction_accepted:
  assumes "tasks w taskId = Some d" and "status d = PENDING" and "uid (assignedTo d) = u"
    and "r = RUNNING_LATE \<longrightarrow> nullish (extensionCount d) 0 < MAX_EXTENSIONS"
  shows "\<exists>res w'. updateTaskReaction e w taskId r u = (Inr res, w')
           \<and> r_assigneeReaction res = Some r
           \<and> tasks w' = (tasks w)(taskId \<mapsto>
                (if r = RUNNING_LATE
                 then d\<lparr>assigneeReaction := Some r,
                        updatedAt := clock e (ticks w),
                        urgency := (urgency d)
                          \<lparr>expiresAt := expiresAt (urgency d) + RUNNING_LATE_EXTENSION\<rparr>,
                        extensionCount := Some (nullish (extensionCount d) 0 + 1),
                        ttl := expiresAt (urgency d) + RUNNING_LATE_EXTENSION
                                 + DEFAULT_TTL_AFTER_EXPIRY\<rparr>
                 else d\<lparr>assigneeReaction := Some r, updatedAt := clock e (ticks w)\<rparr>))"
  using assms
  by (auto simp: updateTaskReaction_def Let_def split_def update_task_def not_le)

lemma updateTaskReaction_step:
  assumes "tasks w taskId = Some d" and "status d = PENDING" and "uid (assignedTo d) = u"
  shows "\<exists>d'. tasks (snd (updateTaskReaction e w taskId r u)) taskId = Some d'
           \<and> status d' = PENDING \<and> uid (assignedTo d') = u
           \<and> (extensionCount d \<noteq> None \<longrightarrow> extensionCount d' \<noteq> None)
           \<and> nullish (extensionCount d') 0
               = nullish (extensionCount d) 0
                 + (if r = RUNNING_LATE \<and> \<not> isl (fst (updateTaskReaction e w taskId r u))
                    then 1 else 0)
           \<and> expiresAt (urgency d')
               = expiresAt (urgency d)
                 + (if r = RUNNING_LATE \<and> \<not> isl (fst (updateTaskReaction e w taskId r u))
                    then RUNNING_LATE_EXTENSION else 0)"
proof (cases "r = RUNNING_LATE \<and> MAX_EXTENSIONS \<le> nullish (extensionCount d) 0")
  case True
  then have "updateTaskReaction e w taskId r u
               = (Inl (BadRequestException MAX_EXTENSIONS_MSG), snd (now e w))"
    using updateTaskReaction_limit [OF assms, of e] by simp
  with assms show ?thesis by simp
next
  case False
  then have "r = RUNNING_LATE \<longrightarrow> nullish (extensionCount d) 0 < MAX_EXTENSIONS" by auto
  from updateTaskReaction_accepted [OF assms this, of e]
  obtain res w' where
    "updateTaskReaction e w taskId r u = (Inr res, w')"
    "tasks w' = (tasks w)(taskId \<mapsto>
                (if r = RUNNING_LATE
                 then d\<lparr>assigneeReaction := Some r,
                        updatedAt := clock e (ticks w),
                        urgency := (urgency d)
                          \<lparr>expiresAt := expiresAt (urgency d) + RUNNING_LATE_EXTENSION\<rparr>,
                        extensionCount := Some (nullish (extensionCount d) 0 + 1),
                        ttl := expiresAt (urgency d) + RUNNING_LATE_EXTENSION
                                 + DEFAULT_TTL_AFTER_EXPIRY\<rparr>
                 else d\<lparr>assigneeReaction := Some r, updatedAt := clock e (ticks w)\<rparr>))"
    by blast
  with assms show ?thesis by (simp add: nullish_def)
qed

lemma applyReactions_count:
  assumes "tasks w taskId = Some d" and "status d = PENDING" and "uid (assignedTo d) = u"
  shows "\<exists>d'. tasks (snd (applyReactions e taskId u rs w)) taskId = Some d'
           \<and> status d' = PENDING \<and> uid (assignedTo d') = u
           \<and> (extensionCount d \<noteq> None \<longrightarrow> extensionCount d' \<noteq> None)
           \<and> nullish (extensionCount d') 0
               = nullish (extensionCount d) 0
                 + int (acceptedRunningLate (fst (applyReactions e taskId u rs w)))
           \<and> expiresAt (urgency d')
               = expiresAt (urgency d)
                 + int (acceptedRunningLate (fst (applyReactions e taskId u rs w)))
                   * RUNNING_LATE_EXTENSION"
  using assms
proof (induction rs arbitrary: w d)
  case Nil
  then show ?case by (simp add: acceptedRunningLate_def)
next
  case (Cons r rs)
  let ?w1 = "snd (updateTaskReaction e w taskId r u)"
  let ?x = "fst (updateTaskReaction e w taskId r u)"
  from updateTaskReaction_step [OF Cons.prems, of e r]
  obtain d1 where d1: "tasks ?w1 taskId = Some d1" "status d1 = PENDING"
      "uid (assignedTo d1) = u"
      "nullish (extensionCount d1) 0
         = nullish (extensionCount d) 0 + (if r = RUNNING_LATE \<and> \<not> isl ?x then 1 else 0)"
      "expiresAt (urgency d1)
         = expiresAt (urgency d)
           + (if r = RUNNING_LATE \<and> \<not> isl ?x then RUNNING_LATE_EXTENSION else 0)"
      "extensionCount d \<noteq> None \<longrightarrow> extensionCount d1 \<noteq> None"
    by blast
  from Cons.IH [OF d1(1,2,3)]
  obtain d' where d': "tasks (snd (applyReactions e taskId u rs ?w1)) taskId = Some d'"
      "status d' = PENDING" "uid (assignedTo d') = u"
      "nullish (extensionCount d') 0
         = nullish (extensionCount d1) 0
           + int (acceptedRunningLate (fst (applyReactions e taskId u rs ?w1)))"
      "expiresAt (urgency d')
         = expiresAt (urgency d1)
           + int (acceptedRunningLate (fst (applyReactions e taskId u rs ?w1)))
             * RUNNING_LATE_EXTENSION"
      "extensionCount d1 \<noteq> None \<longrightarrow> extensionCount d' \<noteq> None"
    by blast
  define k :: nat where "k = (if r = RUNNING_LATE \<and> \<not> isl ?x then 1 else 0)"
  have acc: "acceptedRunningLate (fst (applyReactions e taskId u (r # rs) w))
               = k + acceptedRunningLate (fst (applyReactions e taskId u rs ?w1))"
    by (auto simp: k_def acceptedRunningLate_def split_def Let_def)
  have w2: "snd (applyReactions e taskId u (r # rs) w) = snd (applyReactions e taskId u rs ?w1)"
    by (simp add: split_def Let_def)
  have c1: "nullish (extensionCount d1) 0 = nullish (extensionCount d) 0 + int k"
    using d1(4) by (auto simp: k_def)
  have e1: "expiresAt (urgency d1) = expiresAt (urgency d) + int k * RUNNING_LATE_EXTENSION"
    using d1(5) by (auto simp: k_def)
  show ?case
    unfolding w2 acc using d'(1,2,3,6) d1(6) d'(4) [unfolded c1] d'(5) [unfolded e1]
    by (simp add: algebra_simps)
qed

text \<open>
  A run on the example store: Bob reacts five times; the fourth \<open>running_late\<close>
  reaction is refused, the other reactions are accepted.
\<close>

lemma example_run_results:
  "map (\<lambda>(r, x). isl x)
       (fst (applyReactions ex_env ''t1'' ''bob''
               [RUNNING_LATE, ON_IT, RUNNING_LATE, RUNNING_LATE, RUNNING_LATE] (ex_world ex_task)))
     = [False, False, False, False, True]"
  by code_simp

lemma example_run_accepted:
  "acceptedRunningLate
     (fst (applyReactions ex_env ''t1'' ''bob''
             [RUNNING_LATE, ON_IT, RUNNING_LATE, RUNNING_LATE, RUNNING_LATE] (ex_world ex_task)))
     = 3"
  by code_simp

text \<open>
  Claim C2. On a pending task whose \<open>extensionCount\<close> is \<open>N\<close>, a \<open>running_late\<close>
  reaction by the assignee succeeds when \<open>N < 3\<close>: the stored \<open>expiresAt\<close> is the
  previous one plus 30 minutes (1800000 ms), \<open>ttl\<close> is the new \<open>expiresAt\<close> plus 7 days
  (604800000 ms), and \<open>extensionCount\<close> is \<open>N + 1\<close>. With \<open>N = 3\<close> the attempt fails
  with the \<open>MAX_EXTENSIONS\<close> message. After any sequence of reactions by the assignee
  the count is \<open>N\<close> plus the number of accepted \<open>running_late\<close> reactions, which for a
  task as created (\<open>N = 0\<close>) is that number.
\<close>

theorem C2_running_late_extension:
  assumes "tasks w taskId = Some d" and "status d = PENDING" and "uid (assignedTo d) = u"
    and "extensionCount d = Some N"
  shows "(N < 3 \<longrightarrow>
            (\<exists>res w'. updateTaskReaction e w taskId RUNNING_LATE u = (Inr res, w')
               \<and> tasks w' taskId =
                   Some (d\<lparr>assigneeReaction := Some RUNNING_LATE,
                           updatedAt := clock e (ticks w),
                           urgency := (urgency d)\<lparr>expiresAt := expiresAt (urgency d) + 1800000\<rparr>,
                           extensionCount := Some (N + 1),
                           ttl := expiresAt (urgency d) + 1800000 + 604800000\<rparr>)))
       \<and> (N = 3 \<longrightarrow>
            fst (updateTaskReaction e w taskId RUNNING_LATE u)
              = Inl (BadRequestException MAX_EXTENSIONS_MSG))
       \<and> (\<exists>d'. tasks (snd (applyReactions e taskId u rs w)) taskId = Some d'
              \<and> extensionCount d'
                  = Some (N + int (acceptedRunningLate (fst (applyReactions e taskId u rs w))))
              \<and> expiresAt (urgency d')
                  = expiresAt (urgency d)
                    + int (acceptedRunningLate (fst (applyReactions e taskId u rs w))) * 1800000)"
proof (intro conjI impI)
  assume n: "N < 3"
  then have "RUNNING_LATE = RUNNING_LATE \<longrightarrow> nullish (extensionCount d) 0 < MAX_EXTENSIONS"
    using assms(4) by (simp add: nullish_def MAX_EXTENSIONS_def)
  from updateTaskReaction_accepted [OF assms(1,2,3) this, of e]
  show "\<exists>res w'. updateTaskReaction e w taskId RUNNING_LATE u = (Inr res, w')
               \<and> tasks w' taskId =
                   Some (d\<lparr>assigneeReaction := Some RUNNING_LATE,
                           updatedAt := clock e (ticks w),
                           urgency := (urgency d)\<lparr>expiresAt := expiresAt (urgency d) + 1800000\<rparr>,
                           extensionCount := Some (N + 1),
                           ttl := expiresAt (urgency d) + 1800000 + 604800000\<rparr>)"
    using assms(4)
    by (auto simp: nullish_def RUNNING_LATE_EXTENSION_def DEFAULT_TTL_AFTER_EXPIRY_def)
next
  assume "N = 3"
  then have "MAX_EXTENSIONS \<le> nullish (extensionCount d) 0"
    using assms(4) by (simp add: nullish_def MAX_EXTENSIONS_def)
  from updateTaskReaction_limit [OF assms(1,2,3) this, of e]
  show "fst (updateTaskReaction e w taskId RUNNING_LATE u)
          = Inl (BadRequestException MAX_EXTENSIONS_MSG)"
    by simp
next
  from applyReactions_count [OF assms(1,2,3), of e rs]
  obtain d' where d': "tasks (snd (applyReactions e taskId u rs w)) taskId = Some d'"
      "extensionCount d \<noteq> None \<longrightarrow> extensionCount d' \<noteq> None"
      "nullish (extensionCount d') 0
         = nullish (extensionCount d) 0
           + int (acceptedRunningLate (fst (applyReactions e taskId u rs w)))"
      "expiresAt (urgency d')
         = expiresAt (urgency d)
           + int (acceptedRunningLate (fst (applyReactions e taskId u rs w)))
             * RUNNING_LATE_EXTENSION"
    by blast
  from d'(2) assms(4) obtain c where c: "extensionCount d' = Some c" by auto
  with d'(3) assms(4)
  have "c = N + int (acceptedRunningLate (fst (applyReactions e taskId u rs w)))"
    by (simp add: nullish_def)
  with c d'(1,4)
  show "\<exists>d'. tasks (snd (applyReactions e taskId u rs w)) taskId = Some d'
              \<and> extensionCount d'
                  = Some (N + int (acceptedRunningLate (fst (applyReactions e taskId u rs w))))
              \<and> expiresAt (urgency d')
                  = expiresAt (urgency d)
                    + int (acceptedRunningLate (fst (applyReactions e taskId u rs w))) * 1800000"
    by (simp add: RUNNING_LATE_EXTENSION_def)
qed

theorem C2_running_late_extension_witness:
  "tasks (ex_world ex_task) ''t1'' = Some ex_task \<and> status ex_task = PENDING
   \<and> uid (assignedTo ex_task) = ''bob'' \<and> extensionCount ex_task = Some 0
   \<and> (\<exists>res w'. updateTaskReaction ex_env (ex_world ex_task) ''t1'' RUNNING_LATE ''bob''
                   = (Inr res, w')
         \<and> map_option (\<lambda>d. (expiresAt (urgency d), ttl d, extensionCount d)) (tasks w' ''t1'')
             = Some (4600000, 609400000, Some 1))
   \<and> (\<exists>d'. tasks (snd (applyReactions ex_env ''t1'' ''bob''
                 [RUNNING_LATE, ON_IT, RUNNING_LATE, RUNNING_LATE, RUNNING_LATE]
                 (ex_world ex_task))) ''t1'' = Some d'
         \<and> extensionCount d' = Some 3 \<and> expiresAt (urgency d') = 8200000)
   \<and> tasks (ex_world (ex_task\<lparr>extensionCount := Some 3\<rparr>)) ''t1''
       = Some (ex_task\<lparr>extensionCount := Some 3\<rparr>)
   \<and> fst (updateTaskReaction ex_env (ex_world (ex_task\<lparr>extensionCount := Some 3\<rparr>)) ''t1''
            RUNNING_LATE ''bob'')
       = Inl (BadRequestException MAX_EXTENSIONS_MSG)"
proof -
  have t: "tasks (ex_world ex_task) ''t1'' = Some ex_task" by (simp add: ex_world_def)
  have p: "status ex_task = PENDING" by (simp add: ex_task_def)
  have a: "uid (assignedTo ex_task) = ''bob''" by (simp add: ex_task_def)
  have c: "extensionCount ex_task = Some 0" by (simp add: ex_task_def)
  have x: "expiresAt (urgency ex_task) = 2800000" by (simp add: ex_task_def)
  let ?d3 = "ex_task\<lparr>extensionCount := Some 3\<rparr>"
  have t3: "tasks (ex_world ?d3) ''t1'' = Some ?d3" by (simp add: ex_world_def)
  have p3: "status ?d3 = PENDING" and a3: "uid (assignedTo ?d3) = ''bob''"
    and c3: "extensionCount ?d3 = Some 3"
    by (simp_all add: ex_task_def)
  let ?rs = "[RUNNING_LATE, ON_IT, RUNNING_LATE, RUNNING_LATE, RUNNING_LATE]"
  from C2_running_late_extension [OF t p a c, of ex_env ?rs]
  have 1: "\<exists>res w'. updateTaskReaction ex_env (ex_world ex_task) ''t1'' RUNNING_LATE ''bob''
                   = (Inr res, w')
         \<and> map_option (\<lambda>d. (expiresAt (urgency d), ttl d, extensionCount d)) (tasks w' ''t1'')
             = Some (4600000, 609400000, Some 1)"
    using x by auto
  from C2_running_late_extension [OF t p a c, of ex_env ?rs]
  have 2: "\<exists>d'. tasks (snd (applyReactions ex_env ''t1'' ''bob'' ?rs (ex_world ex_task))) ''t1''
                  = Some d'
               \<and> extensionCount d' = Some 3 \<and> expiresAt (urgency d') = 8200000"
    unfolding example_run_accepted x by simp
  from C2_running_late_extension [OF t3 p3 a3 c3, of ex_env "[]"]
  have 3: "fst (updateTaskReaction ex_env (ex_world ?d3) ''t1'' RUNNING_LATE ''bob'')
             = Inl (BadRequestException MAX_EXTENSIONS_MSG)"
    by simp
  show ?thesis using t p a c 1 2 t3 3 by blast
qed

text \<open>
  Claim C3. A \<open>running_late\<close> reaction by the assignee on a pending task whose
  \<open>extensionCount\<close> is 3 or more throws the \<open>MAX_EXTENSIONS\<close> error before any write:
  the tasks collection (so every field of the task document), the notifications
  collection and the list of messages handed to the push service are as before.
\<close>

theorem C3_limit_exceeded_before_any_write:
  assumes "tasks w taskId = Some d" and "status d = PENDING" and "uid (assignedTo d) = u"
    and "extensionCount d = Some c" and "3 \<le> c"
  shows "\<exists>w'. updateTaskReaction e w taskId RUNNING_LATE u
                 = (Inl (BadRequestException MAX_EXTENSIONS_MSG), w')
           \<and> tasks w' = tasks w \<and> notifications w' = notifications w
           \<and> pushed w' = pushed w \<and> users w' = users w"
proof -
  have "MAX_EXTENSIONS \<le> nullish (extensionCount d) 0"
    using assms(4,5) by (simp add: nullish_def MAX_EXTENSIONS_def)
  from updateTaskReaction_limit [OF assms(1,2,3) this, of e]
  show ?thesis by simp
qed

theorem C3_limit_exceeded_before_any_write_witness:
  "tasks (ex_world (ex_task\<lparr>extensionCount := Some 3\<rparr>)) ''t1''
       = Some (ex_task\<lparr>extensionCount := Some 3\<rparr>)
   \<and> status (ex_task\<lparr>extensionCount := Some 3\<rparr>) = PENDING
   \<and> uid (assignedTo (ex_task\<lparr>extensionCount := Some 3\<rparr>)) = ''bob''
   \<and> extensionCount (ex_task\<lparr>extensionCount := Some 3\<rparr>) = Some 3 \<and> (3::int) \<le> 3
   \<and> (\<exists>w'. updateTaskReaction ex_env (ex_world (ex_task\<lparr>extensionCount := Some 3\<rparr>)) ''t1''
               RUNNING_LATE ''bob''
                 = (Inl (BadRequestException MAX_EXTENSIONS_MSG), w')
           \<and> tasks w' ''t1'' = Some (ex_task\<lparr>extensionCount := Some 3\<rparr>)
           \<and> notifications w' = [] \<and> pushed w' = [])"
proof -
  let ?d3 = "ex_task\<lparr>extensionCount := Some 3\<rparr>"
  have t3: "tasks (ex_world ?d3) ''t1'' = Some ?d3" by (simp add: ex_world_def)
  have p3: "status ?d3 = PENDING" and a3: "uid (assignedTo ?d3) = ''bob''"
    and c3: "extensionCount ?d3 = Some 3"
    by (simp_all add: ex_task_def)
  have n: "notifications (ex_world ?d3) = []" "pushed (ex_world ?d3) = []"
    by (simp_all add: ex_world_def)
  from C3_limit_exceeded_before_any_write [OF t3 p3 a3 c3, of ex_env]
  show ?thesis using t3 p3 a3 c3 n by auto
qed

section \<open>Lazy expiry on read\<close>

lemma getAuthorizedTask_ok:
  assumes "tasks w taskId = Some d" and "uid (createdBy d) = u \<or> uid (assignedTo d) = u"
  shows "getAuthorizedTask w taskId u = Inr d"
  using assms by (auto simp: getAuthorizedTask_def)

text \<open>
  Claim C4. A read by the creator or the assignee of a task that is stored as pending
  and whose expiry is at or before the clock reading of \<open>isExpired\<close> returns the task
  with status \<open>expired\<close> and stores that status together with \<open>updatedAt\<close>, the clock
  reading taken for the write. A read of a pending task that expires later, or of a task
  that is not pending, returns the stored status and leaves the tasks collection as it
  was.
\<close>

theorem C4_lazy_expiry_on_read:
  assumes "tasks w taskId = Some d" and "uid (createdBy d) = u \<or> uid (assignedTo d) = u"
  shows "(status d = PENDING \<and> expiresAt (urgency d) \<le> clock e (ticks w) \<longrightarrow>
            (\<exists>res w'. getTaskById e w taskId u = (Inr res, w')
               \<and> r_status res = EXPIRED
               \<and> r_updatedAt res = clock e (Suc (ticks w))
               \<and> tasks w' = (tasks w)(taskId \<mapsto>
                     d\<lparr>status := EXPIRED, updatedAt := clock e (Suc (ticks w))\<rparr>)))
       \<and> (status d \<noteq> PENDING \<or> clock e (ticks w) < expiresAt (urgency d) \<longrightarrow>
            (\<exists>res w'. getTaskById e w taskId u = (Inr res, w')
               \<and> r_status res = status d
               \<and> tasks w' = tasks w))"
proof (intro conjI impI)
  assume a: "status d = PENDING \<and> expiresAt (urgency d) \<le> clock e (ticks w)"
  then show "\<exists>res w'. getTaskById e w taskId u = (Inr res, w')
               \<and> r_status res = EXPIRED
               \<and> r_updatedAt res = clock e (Suc (ticks w))
               \<and> tasks w' = (tasks w)(taskId \<mapsto>
                     d\<lparr>status := EXPIRED, updatedAt := clock e (Suc (ticks w))\<rparr>)"
    using assms(1)
    by (simp add: getTaskById_def getAuthorizedTask_ok [OF assms] isExpired_def Let_def
          split_def update_task_tasks)
next
  assume "status d \<noteq> PENDING \<or> clock e (ticks w) < expiresAt (urgency d)"
  then show "\<exists>res w'. getTaskById e w taskId u = (Inr res, w')
               \<and> r_status res = status d
               \<and> tasks w' = tasks w"
    by (auto simp: getTaskById_def getAuthorizedTask_ok [OF assms] isExpired_def Let_def
          split_def)
qed

theorem C4_lazy_expiry_on_read_witness:
  "tasks (ex_world (ex_task\<lparr>urgency := \<lparr>expiresAt = 999000, durationMinutes = 30\<rparr>\<rparr>)) ''t1''
       = Some (ex_task\<lparr>urgency := \<lparr>expiresAt = 999000, durationMinutes = 30\<rparr>\<rparr>)
   \<and> uid (assignedTo (ex_task\<lparr>urgency := \<lparr>expiresAt = 999000, durationMinutes = 30\<rparr>\<rparr>)) = ''bob''
   \<and> status (ex_task\<lparr>urgency := \<lparr>expiresAt = 999000, durationMinutes = 30\<rparr>\<rparr>) = PENDING
   \<and> (999000::int) \<le> clock ex_env 0
   \<and> (\<exists>res w'. getTaskById ex_env
                   (ex_world (ex_task\<lparr>urgency := \<lparr>expiresAt = 999000, durationMinutes = 30\<rparr>\<rparr>))
                   ''t1'' ''bob'' = (Inr res, w')
         \<and> r_status res = EXPIRED
         \<and> map_option (\<lambda>d. (status d, updatedAt d)) (tasks w' ''t1'') = Some (EXPIRED, 1000001))
   \<and> clock ex_env 0 < expiresAt (urgency ex_task)
   \<and> (\<exists>res w'. getTaskById ex_env (ex_world ex_task) ''t1'' ''bob'' = (Inr res, w')
         \<and> r_status res = PENDING \<and> tasks w' ''t1'' = Some ex_task)"
proof -
  let ?d = "ex_task\<lparr>urgency := \<lparr>expiresAt = 999000, durationMinutes = 30\<rparr>\<rparr>"
  have t: "tasks (ex_world ?d) ''t1'' = Some ?d" by (simp add: ex_world_def)
  have a: "uid (createdBy ?d) = ''bob'' \<or> uid (assignedTo ?d) = ''bob''"
    and a': "uid (assignedTo ?d) = ''bob''"
    and p: "status ?d = PENDING" and x: "expiresAt (urgency ?d) = 999000"
    by (simp_all add: ex_task_def)
  have k: "ticks (ex_world ?d) = 0" "ticks (ex_world ex_task) = 0" by (simp_all add: ex_world_def)
  have c: "clock ex_env 0 = 1000000" "clock ex_env (Suc 0) = 1000001"
    by (simp_all add: ex_env_def)
  have t0: "tasks (ex_world ex_task) ''t1'' = Some ex_task" by (simp add: ex_world_def)
  have a0: "uid (createdBy ex_task) = ''bob'' \<or> uid (assignedTo ex_task) = ''bob''"
    and p0: "status ex_task = PENDING" and x0: "expiresAt (urgency ex_task) = 2800000"
    by (simp_all add: ex_task_def)
  from C4_lazy_expiry_on_read [OF t a, of ex_env]
  have 1: "\<exists>res w'. getTaskById ex_env (ex_world ?d) ''t1'' ''bob'' = (Inr res, w')
         \<and> r_status res = EXPIRED
         \<and> map_option (\<lambda>d. (status d, updatedAt d)) (tasks w' ''t1'') = Some (EXPIRED, 1000001)"
    unfolding k c x p by auto
  from C4_lazy_expiry_on_read [OF t0 a0, of ex_env]
  have 2: "\<exists>res w'. getTaskById ex_env (ex_world ex_task) ''t1'' ''bob'' = (Inr res, w')
         \<and> r_status res = PENDING \<and> tasks w' ''t1'' = Some ex_task"
    unfolding k c x0 p0 using t0 by auto
  show ?thesis using t a' p c(1) x0 1 2 by simp
qed

section \<open>Creating a task\<close>

lemma createTask_persist_Inr:
  assumes "createTask_persist e w dto creatorUid = Inr (taskRef, taskData, w3)"
  shows "taskRef = autoId e (allocs w)"
    and "tasks w3 = (tasks w)(taskRef \<mapsto> taskData)"
    and "notifications w3 = notifications w" and "pushed w3 = pushed w"
    and "users w3 = users w"
    and "createdAt taskData = clock e (ticks w)"
    and "updatedAt taskData = clock e (ticks w)"
    and "urgency taskData =
           \<lparr> expiresAt = clock e (ticks w) + c_durationMinutes dto * TASK_TIME_MS_MINUTE,
             durationMinutes = c_durationMinutes dto \<rparr>"
    and "ttl taskData = expiresAt (urgency taskData) + DEFAULT_TTL_AFTER_EXPIRY"
    and "status taskData = PENDING" and "assigneeReaction taskData = None"
    and "extensionCount taskData = Some 0"
    and "notification taskData = \<lparr> sent = False, sentAt = None, error = None \<rparr>"
    and "title taskData = trim (c_title dto)"
    and "uid (createdBy taskData) = creatorUid"
    and "uid (assignedTo taskData) \<noteq> creatorUid"
  using assms
  by (auto simp: createTask_persist_def getTaskUser_def findUserByEmail_def now_def newId_def
        Let_def split_def
        split: sum.splits option.splits list.splits if_splits)

text \<open>What \<open>createTask\<close> returns and stores once the document has been persisted.\<close>

lemma createTask_after_persist:
  assumes "createTask_persist e w dto creatorUid = Inr (taskRef, taskData, w3)"
    and "sendTaskAssignmentNotification e w3 taskRef (uid (assignedTo taskData))
           (uid (createdBy taskData)) (name (createdBy taskData)) (c_title dto) = (thrown, w4)"
  shows "\<exists>res w'. createTask e w dto creatorUid = (Inr res, w')
           \<and> notifications w' = notifications w4 \<and> pushed w' = pushed w4
           \<and> tasks w' = (tasks w)(taskRef \<mapsto> taskData\<lparr>notification :=
                 (case thrown of
                    None \<Rightarrow> \<lparr> sent = True, sentAt = Some (clock e (ticks w4)), error = None \<rparr>
                  | Some err \<Rightarrow> \<lparr> sent = False, sentAt = None, error = Some (message err) \<rparr>)\<rparr>)
           \<and> r_notification res =
                 (case thrown of
                    None \<Rightarrow> \<lparr> r_sent = True, r_sentAt = Some (clock e (ticks w4)), r_error = None \<rparr>
                  | Some err \<Rightarrow> \<lparr> r_sent = False, r_sentAt = None, r_error = Some (message err) \<rparr>)
           \<and> r_id res = taskRef \<and> r_status res = status taskData
           \<and> r_assigneeReaction res = assigneeReaction taskData
           \<and> r_extensionCount res = nullish (extensionCount taskData) 0
           \<and> r_expiresAt (r_urgency res) = expiresAt (urgency taskData)
           \<and> r_createdAt res = createdAt taskData"
proof -
  have t3: "tasks w3 = (tasks w)(taskRef \<mapsto> taskData)"
    and n: "notification taskData = \<lparr> sent = False, sentAt = None, error = None \<rparr>"
    using createTask_persist_Inr [OF assms(1)] by simp_all
  have t4: "tasks w4 = (tasks w)(taskRef \<mapsto> taskData)"
    using sendTaskAssignmentNotification_frame(1)
            [of e w3 taskRef "uid (assignedTo taskData)" "uid (createdBy taskData)"
                "name (createdBy taskData)" "c_title dto"]
    unfolding assms(2) t3 by simp
  show ?thesis
  proof (cases thrown)
    case None
    then show ?thesis
      using assms t4 n
      by (simp add: createTask_def Let_def split_def update_task_def)
  next
    case (Some err)
    then show ?thesis
      using assms t4 n
      by (simp add: createTask_def Let_def split_def update_task_def)
  qed
qed

text \<open>
  Claim C5. For every successful \<open>createTask\<close>, the document persisted by
  \<open>collection.add\<close> has creation time the clock reading \<open>now\<close>, expiry
  \<open>now + durationMinutes\<close> minutes (60000 ms each), \<open>ttl\<close> the expiry plus 7 days
  (604800000 ms), status \<open>pending\<close>, no reaction, \<open>extensionCount = 0\<close> and the
  notification sub-record \<open>{sent: false, sentAt: null}\<close>. The notification outcome
  written afterwards changes only that sub-record, and the response carries the same
  values.
\<close>

theorem C5_created_task:
  assumes "createTask e w dto creatorUid = (Inr res, w')"
  shows "\<exists>taskRef taskData w3.
           createTask_persist e w dto creatorUid = Inr (taskRef, taskData, w3)
         \<and> tasks w3 taskRef = Some taskData
         \<and> createdAt taskData = clock e (ticks w)
         \<and> expiresAt (urgency taskData) = clock e (ticks w) + c_durationMinutes dto * 60000
         \<and> durationMinutes (urgency taskData) = c_durationMinutes dto
         \<and> ttl taskData = expiresAt (urgency taskData) + 604800000
         \<and> status taskData = PENDING
         \<and> assigneeReaction taskData = None
         \<and> extensionCount taskData = Some 0
         \<and> notification taskData = \<lparr> sent = False, sentAt = None, error = None \<rparr>
         \<and> (\<exists>outcome. tasks w' taskRef = Some (taskData\<lparr>notification := outcome\<rparr>))
         \<and> r_id res = taskRef \<and> r_status res = PENDING \<and> r_assigneeReaction res = None
         \<and> r_extensionCount res = 0
         \<and> r_expiresAt (r_urgency res) = clock e (ticks w) + c_durationMinutes dto * 60000"
proof (cases "createTask_persist e w dto creatorUid")
  case (Inl x)
  with assms show ?thesis by (simp add: createTask_def)
next
  case (Inr y)
  then obtain taskRef taskData w3 where
    pers: "createTask_persist e w dto creatorUid = Inr (taskRef, taskData, w3)"
    by (cases y) auto
  obtain thrown w4 where
    send: "sendTaskAssignmentNotification e w3 taskRef (uid (assignedTo taskData))
             (uid (createdBy taskData)) (name (createdBy taskData)) (c_title dto) = (thrown, w4)"
    by (cases "sendTaskAssignmentNotification e w3 taskRef (uid (assignedTo taskData))
             (uid (createdBy taskData)) (name (createdBy taskData)) (c_title dto)")
  note P = createTask_persist_Inr [OF pers]
  from createTask_after_persist [OF pers send] assms
  have fin: "\<exists>outcome. tasks w' taskRef = Some (taskData\<lparr>notification := outcome\<rparr>)"
    and rs: "r_id res = taskRef" "r_status res = status taskData"
      "r_assigneeReaction res = assigneeReaction taskData"
      "r_extensionCount res = nullish (extensionCount taskData) 0"
      "r_expiresAt (r_urgency res) = expiresAt (urgency taskData)"
    by auto
  have x: "expiresAt (urgency taskData) = clock e (ticks w) + c_durationMinutes dto * 60000"
    and dm: "durationMinutes (urgency taskData) = c_durationMinutes dto"
    using P(8) by (simp_all add: TASK_TIME_MS_MINUTE_def)
  have tt: "ttl taskData = expiresAt (urgency taskData) + 604800000"
    using P(9) by (simp add: DEFAULT_TTL_AFTER_EXPIRY_def)
  have st: "tasks w3 taskRef = Some taskData" using P(2) by simp
  show ?thesis
    using pers st P(6) x dm tt P(10,11,12,13) fin rs
    by (simp add: nullish_def)
qed

lemma example_create_succeeds:
  "\<not> isl (fst (createTask ex_env (ex_world ex_task) ex_dto ''alice''))"
  by code_simp

theorem C5_created_task_witness:
  "\<exists>res w'. createTask ex_env (ex_world ex_task) ex_dto ''alice'' = (Inr res, w')
     \<and> c_durationMinutes ex_dto = 30 \<and> clock ex_env (ticks (ex_world ex_task)) = 1000000
     \<and> r_status res = PENDING \<and> r_extensionCount res = 0
     \<and> r_expiresAt (r_urgency res) = 2800000
     \<and> (\<exists>taskRef taskData w3.
           createTask_persist ex_env (ex_world ex_task) ex_dto ''alice''
             = Inr (taskRef, taskData, w3)
         \<and> tasks w3 taskRef = Some taskData
         \<and> expiresAt (urgency taskData) = 2800000 \<and> ttl taskData = 607600000
         \<and> status taskData = PENDING \<and> assigneeReaction taskData = None
         \<and> extensionCount taskData = Some 0 \<and> \<not> sent (notification taskData))"
proof -
  obtain res w' where eq: "createTask ex_env (ex_world ex_task) ex_dto ''alice'' = (Inr res, w')"
    using example_create_succeeds
    by (cases "createTask ex_env (ex_world ex_task) ex_dto ''alice''";
        cases "fst (createTask ex_env (ex_world ex_task) ex_dto ''alice'')") auto
  have d: "c_durationMinutes ex_dto = 30" by (simp add: ex_dto_def)
  have c: "clock ex_env (ticks (ex_world ex_task)) = 1000000"
    by (simp add: ex_env_def ex_world_def)
  from C5_created_task [OF eq] obtain taskRef taskData w3 where
    "createTask_persist ex_env (ex_world ex_task) ex_dto ''alice'' = Inr (taskRef, taskData, w3)"
    "tasks w3 taskRef = Some taskData"
    "expiresAt (urgency taskData) = 2800000" "ttl taskData = 607600000"
    "status taskData = PENDING" "assigneeReaction taskData = None"
    "extensionCount taskData = Some 0" "\<not> sent (notification taskData)"
    "r_status res = PENDING" "r_extensionCount res = 0"
    "r_expiresAt (r_urgency res) = 2800000"
    unfolding d c by auto
  with eq d c show ?thesis by blast
qed

section \<open>Notification failures do not fail the lifecycle operation\<close>

text \<open>
  Claim C6. When the coordinator throws during \<open>createTask\<close>, the exception is caught:
  the call returns the task, the persisted document stays, and its notification
  sub-record (and the one in the response) is \<open>sent = false\<close> with the message of the
  exception as \<open>error\<close>. During \<open>updateTaskReaction\<close> the outcome of the coordinator,
  an exception included, does not reach the caller either: once the checks have passed the
  call returns the task and the reaction update is stored.
\<close>

theorem C6_notification_failure_is_caught:
  "(\<forall>taskRef taskData w3 err w4.
      createTask_persist e w dto creatorUid = Inr (taskRef, taskData, w3)
      \<and> sendTaskAssignmentNotification e w3 taskRef (uid (assignedTo taskData))
           (uid (createdBy taskData)) (name (createdBy taskData)) (c_title dto) = (Some err, w4)
      \<longrightarrow> (\<exists>res w'. createTask e w dto creatorUid = (Inr res, w')
             \<and> tasks w' = (tasks w)(taskRef \<mapsto> taskData\<lparr>notification :=
                   \<lparr> sent = False, sentAt = None, error = Some (message err) \<rparr>\<rparr>)
             \<and> r_notification res
                 = \<lparr> r_sent = False, r_sentAt = None, r_error = Some (message err) \<rparr>
             \<and> r_id res = taskRef \<and> r_status res = PENDING))
   \<and> (\<forall>d. tasks w taskId = Some d \<and> status d = PENDING \<and> uid (assignedTo d) = u
          \<and> (r = RUNNING_LATE \<longrightarrow> nullish (extensionCount d) 0 < 3)
      \<longrightarrow> (\<exists>res w'. updateTaskReaction e w taskId r u = (Inr res, w')
             \<and> r_assigneeReaction res = Some r
             \<and> (\<exists>d'. tasks w' taskId = Some d' \<and> assigneeReaction d' = Some r
                   \<and> updatedAt d' = clock e (ticks w))))"
proof (intro conjI allI impI)
  fix taskRef taskData w3 err w4
  assume a: "createTask_persist e w dto creatorUid = Inr (taskRef, taskData, w3)
      \<and> sendTaskAssignmentNotification e w3 taskRef (uid (assignedTo taskData))
           (uid (createdBy taskData)) (name (createdBy taskData)) (c_title dto) = (Some err, w4)"
  then have pers: "createTask_persist e w dto creatorUid = Inr (taskRef, taskData, w3)"
    and send: "sendTaskAssignmentNotification e w3 taskRef (uid (assignedTo taskData))
           (uid (createdBy taskData)) (name (createdBy taskData)) (c_title dto) = (Some err, w4)"
    by simp_all
  from createTask_after_persist [OF pers send] createTask_persist_Inr(10) [OF pers]
  show "\<exists>res w'. createTask e w dto creatorUid = (Inr res, w')
             \<and> tasks w' = (tasks w)(taskRef \<mapsto> taskData\<lparr>notification :=
                   \<lparr> sent = False, sentAt = None, error = Some (message err) \<rparr>\<rparr>)
             \<and> r_notification res
                 = \<lparr> r_sent = False, r_sentAt = None, r_error = Some (message err) \<rparr>
             \<and> r_id res = taskRef \<and> r_status res = PENDING"
    by auto
next
  fix d
  assume a: "tasks w taskId = Some d \<and> status d = PENDING \<and> uid (assignedTo d) = u
          \<and> (r = RUNNING_LATE \<longrightarrow> nullish (extensionCount d) 0 < 3)"
  then have t: "tasks w taskId = Some d" and p: "status d = PENDING"
    and u: "uid (assignedTo d) = u"
    and l: "r = RUNNING_LATE \<longrightarrow> nullish (extensionCount d) 0 < MAX_EXTENSIONS"
    by (simp_all add: MAX_EXTENSIONS_def)
  from updateTaskReaction_accepted [OF t p u l, of e]
  show "\<exists>res w'. updateTaskReaction e w taskId r u = (Inr res, w')
             \<and> r_assigneeReaction res = Some r
             \<and> (\<exists>d'. tasks w' taskId = Some d' \<and> assigneeReaction d' = Some r
                   \<and> updatedAt d' = clock e (ticks w))"
    by auto
qed

lemma example_persist:
  "createTask_persist ex_env_fail (ex_world ex_task) ex_dto ''alice''
     = Inr (fst ex_persisted, fst (snd ex_persisted), snd (snd ex_persisted))"
proof -
  have "\<not> isl (createTask_persist ex_env_fail (ex_world ex_task) ex_dto ''alice'')"
    by code_simp
  then show ?thesis
    by (cases "createTask_persist ex_env_fail (ex_world ex_task) ex_dto ''alice''")
       (simp_all add: ex_persisted_def)
qed

lemma example_assignment_throws:
  "fst (sendTaskAssignmentNotification ex_env_fail (snd (snd ex_persisted)) (fst ex_persisted)
          (uid (assignedTo (fst (snd ex_persisted)))) (uid (createdBy (fst (snd ex_persisted))))
          (name (createdBy (fst (snd ex_persisted)))) (c_title ex_dto))
     = Some (Error ''DeviceNotRegistered'')"
  by code_simp

lemma example_reaction_notification_failed:
  "map (\<lambda>(k, n). (n_type n, n_status n, n_error n))
       (notifications (snd (updateTaskReaction ex_env_fail (ex_world ex_task) ''t1'' ON_IT ''bob'')))
     = [(TASK_REACTION, NS_FAILED, Some ''DeviceNotRegistered'')]"
  by code_simp

theorem C6_notification_failure_is_caught_witness:
  "createTask_persist ex_env_fail (ex_world ex_task) ex_dto ''alice''
     = Inr (fst ex_persisted, fst (snd ex_persisted), snd (snd ex_persisted))
   \<and> fst (sendTaskAssignmentNotification ex_env_fail (snd (snd ex_persisted)) (fst ex_persisted)
          (uid (assignedTo (fst (snd ex_persisted)))) (uid (createdBy (fst (snd ex_persisted))))
          (name (createdBy (fst (snd ex_persisted)))) (c_title ex_dto))
       = Some (Error ''DeviceNotRegistered'')
   \<and> (\<exists>res w'. createTask ex_env_fail (ex_world ex_task) ex_dto ''alice'' = (Inr res, w')
         \<and> r_notification res
             = \<lparr> r_sent = False, r_sentAt = None, r_error = Some ''DeviceNotRegistered'' \<rparr>
         \<and> map_option notification (tasks w' (fst ex_persisted))
             = Some \<lparr> sent = False, sentAt = None, error = Some ''DeviceNotRegistered'' \<rparr>)
   \<and> tasks (ex_world ex_task) ''t1'' = Some ex_task \<and> status ex_task = PENDING
   \<and> uid (assignedTo ex_task) = ''bob''
   \<and> (\<exists>res w'. updateTaskReaction ex_env_fail (ex_world ex_task) ''t1'' ON_IT ''bob''
                   = (Inr res, w')
         \<and> r_assigneeReaction res = Some ON_IT
         \<and> map_option assigneeReaction (tasks w' ''t1'') = Some (Some ON_IT)
         \<and> map (\<lambda>(k, n). (n_type n, n_status n, n_error n)) (notifications w')
             = [(TASK_REACTION, NS_FAILED, Some ''DeviceNotRegistered'')])"
proof -
  let ?w = "ex_world ex_task"
  obtain w4 where send:
    "sendTaskAssignmentNotification ex_env_fail (snd (snd ex_persisted)) (fst ex_persisted)
          (uid (assignedTo (fst (snd ex_persisted)))) (uid (createdBy (fst (snd ex_persisted))))
          (name (createdBy (fst (snd ex_persisted)))) (c_title ex_dto)
       = (Some (Error ''DeviceNotRegistered''), w4)"
    using example_assignment_throws
    by (metis prod.collapse)
  have t: "tasks ?w ''t1'' = Some ex_task" by (simp add: ex_world_def)
  have p: "status ex_task = PENDING" and a: "uid (assignedTo ex_task) = ''bob''"
    by (simp_all add: ex_task_def)
  note inst = C6_notification_failure_is_caught
               [of ex_env_fail ?w ex_dto "''alice''" "''t1''" "''bob''" ON_IT]
  from inst example_persist send
  have 1: "\<exists>res w'. createTask ex_env_fail ?w ex_dto ''alice'' = (Inr res, w')
         \<and> r_notification res
             = \<lparr> r_sent = False, r_sentAt = None, r_error = Some ''DeviceNotRegistered'' \<rparr>
         \<and> map_option notification (tasks w' (fst ex_persisted))
             = Some \<lparr> sent = False, sentAt = None, error = Some ''DeviceNotRegistered'' \<rparr>"
    by fastforce
  from inst t p a
  obtain res w' where r: "updateTaskReaction ex_env_fail ?w ''t1'' ON_IT ''bob'' = (Inr res, w')"
      "r_assigneeReaction res = Some ON_IT"
      "map_option assigneeReaction (tasks w' ''t1'') = Some (Some ON_IT)"
    by fastforce
  from example_reaction_notification_failed r(1)
  have "map (\<lambda>(k, n). (n_type n, n_status n, n_error n)) (notifications w')
             = [(TASK_REACTION, NS_FAILED, Some ''DeviceNotRegistered'')]"
    by simp
  with r have 2: "\<exists>res w'. updateTaskReaction ex_env_fail ?w ''t1'' ON_IT ''bob'' = (Inr res, w')
         \<and> r_assigneeReaction res = Some ON_IT
         \<and> map_option assigneeReaction (tasks w' ''t1'') = Some (Some ON_IT)
         \<and> map (\<lambda>(k, n). (n_type n, n_status n, n_error n)) (notifications w')
             = [(TASK_REACTION, NS_FAILED, Some ''DeviceNotRegistered'')]"
    by (intro exI [of _ res] exI [of _ w']) simp
  show ?thesis
    by (intro conjI example_persist example_assignment_throws 1 t p a 2)
qed

section \<open>Outcomes of a dispatch\<close>




lemma createNotificationRecord_notifications:
  "notifications (snd (createNotificationRecord e w p))
     = notifications w @ [(autoId e (allocs w), notificationData p (clock e (ticks w)))]"
  by (simp add: createNotificationRecord_def now_def newId_def Let_def)

lemma or_else_nonempty [simp]: "or_else m (c # cs) \<noteq> []"
  by (simp add: or_else_def split: option.splits)



lemma sendPushNotification_not_skipped:
  assumes "\<not> (p_type p = TASK_ASSIGNED
              \<and> checkExistingNotification w (p_taskId p) (p_recipientUid p) TASK_ASSIGNED)"
  shows "sendPushNotification e w p =
           (let w1 = snd (createNotificationRecord e w p); ref = autoId e (allocs w)
            in case getUser w (p_recipientUid p) of
                 None \<Rightarrow> (None, updateNotificationStatus w1 ref NS_FAILED (Some ''User not found''))
               | Some user \<Rightarrow>
                   if or_else (fcmToken user) [] = []
                   then (None, updateNotificationStatus w1 ref NS_FAILED
                           (Some ''User has no FCM token - needs to login to enable notifications''))
                   else if \<not> isExpoPushToken e (or_else (fcmToken user) [])
                   then (None, updateNotificationStatus w1 ref NS_FAILED
                           (Some ''Invalid Expo Push Token format''))
                   else sendExpoNotification e w1 ref (or_else (fcmToken user) [])
                          (p_taskId p) (p_title p) (p_body p) (p_dataType p))"
proof -
  have g: "getUser (snd (createNotificationRecord e w p)) (p_recipientUid p)
             = getUser w (p_recipientUid p)"
    by (simp add: getUser_def)
  show ?thesis
    using assms
    by (auto simp: sendPushNotification_def Let_def split_def g split: option.splits)
qed



section \<open>At most one assignment notification\<close>

lemma checkExistingNotification_iff:
  "checkExistingNotification w t r TASK_ASSIGNED \<longleftrightarrow> assignmentRecords w t r \<noteq> []"
  by (simp add: checkExistingNotification_def assignmentRecords_def take_Suc
        split: list.splits)

text \<open>An update that keeps task, recipient and type keeps the number of matching records.\<close>

lemma length_filter_update_keep:
  assumes "\<And>d. n_taskId (f d) = n_taskId d \<and> recipientUid (f d) = recipientUid d
                \<and> n_type (f d) = n_type d"
  shows "length (filter (\<lambda>(k, n). n_taskId n = t \<and> recipientUid n = r \<and> n_type n = TASK_ASSIGNED)
                   (map (\<lambda>(k, d). if k = ref then (k, f d) else (k, d)) xs))
           = length (filter (\<lambda>(k, n). n_taskId n = t \<and> recipientUid n = r
                                      \<and> n_type n = TASK_ASSIGNED) xs)"
proof (induction xs)
  case Nil
  show ?case by simp
next
  case (Cons x xs)
  obtain k d where x: "x = (k, d)" by (cases x)
  show ?case
    using Cons.IH by (simp add: x assms del: filter_map length_filter_map)
qed

lemma assignmentRecords_update:
  assumes "\<And>d. n_taskId (f d) = n_taskId d \<and> recipientUid (f d) = recipientUid d
                \<and> n_type (f d) = n_type d"
  shows "length (assignmentRecords (update_notification w ref f) t r)
           = length (assignmentRecords w t r)"
proof -
  have "notifications (update_notification w ref f)
          = map (\<lambda>(k, d). if k = ref then (k, f d) else (k, d)) (notifications w)"
    by (simp add: update_notification_def)
  then show ?thesis
    unfolding assignmentRecords_def
    by (simp only: length_filter_update_keep [of f, OF assms])
qed

lemma assignmentRecords_status:
  "length (assignmentRecords (updateNotificationStatus w ref st m) t r)
     = length (assignmentRecords w t r)"
  unfolding updateNotificationStatus_def
  by (rule assignmentRecords_update) (simp split: option.splits)

lemma assignmentRecords_pushed [simp]:
  "assignmentRecords (w\<lparr>pushed := x\<rparr>) t r = assignmentRecords w t r"
  "assignmentRecords (snd (now e w)) t r = assignmentRecords w t r"
  by (simp_all add: assignmentRecords_def)

lemma assignmentRecords_sendExpo:
  "length (assignmentRecords (snd (sendExpoNotification e w ref tok tid ti b dt)) t r)
     = length (assignmentRecords w t r)"
  by (simp add: sendExpoNotification_def Let_def split_def assignmentRecords_status
        assignmentRecords_update
        split: sum.splits list.splits ExpoPushTicket.splits)

lemma assignmentRecords_create:
  "length (assignmentRecords (snd (createNotificationRecord e w p)) t r)
     = length (assignmentRecords w t r)
       + (if p_taskId p = t \<and> p_recipientUid p = r \<and> p_type p = TASK_ASSIGNED then 1 else 0)"
  by (simp add: assignmentRecords_def createNotificationRecord_notifications notificationData_def)

lemma assignmentRecords_send:
  "length (assignmentRecords (snd (sendPushNotification e w p)) t r)
     = (if p_type p = TASK_ASSIGNED \<and> p_taskId p = t \<and> p_recipientUid p = r
           \<and> assignmentRecords w t r = []
        then 1 else length (assignmentRecords w t r))"
proof (cases "p_type p = TASK_ASSIGNED
              \<and> checkExistingNotification w (p_taskId p) (p_recipientUid p) TASK_ASSIGNED")
  case True
  then show ?thesis
    by (auto simp: sendPushNotification_def checkExistingNotification_iff)
next
  case False
  have "length (assignmentRecords (snd (sendPushNotification e w p)) t r)
          = length (assignmentRecords (snd (createNotificationRecord e w p)) t r)"
    unfolding sendPushNotification_not_skipped [OF False]
    by (simp add: Let_def assignmentRecords_status assignmentRecords_sendExpo
          split: option.splits)
  with False show ?thesis
    by (auto simp: assignmentRecords_create checkExistingNotification_iff)
qed

lemma sendPushNotification_skipped:
  assumes "p_type p = TASK_ASSIGNED" and "assignmentRecords w (p_taskId p) (p_recipientUid p) \<noteq> []"
  shows "sendPushNotification e w p = (None, w)"
  using assms by (simp add: sendPushNotification_def checkExistingNotification_iff)

lemma dispatchAll_at_most_one:
  "length (assignmentRecords w t r) \<le> 1
     \<Longrightarrow> length (assignmentRecords (dispatchAll e ps w) t r) \<le> 1"
proof (induction ps arbitrary: w)
  case Nil
  then show ?case by simp
next
  case (Cons p ps)
  have "length (assignmentRecords (snd (sendPushNotification e w p)) t r) \<le> 1"
    using Cons.prems by (simp add: assignmentRecords_send)
  from Cons.IH [OF this] show ?case by simp
qed

lemma dispatchAll_keeps_one:
  "\<forall>p\<in>set ps. p_type p = TASK_ASSIGNED \<and> p_taskId p = t \<and> p_recipientUid p = r
     \<Longrightarrow> assignmentRecords w t r \<noteq> []
     \<Longrightarrow> dispatchAll e ps w = w"
proof (induction ps arbitrary: w)
  case Nil
  then show ?case by simp
next
  case (Cons p ps)
  have p: "p_type p = TASK_ASSIGNED" "p_taskId p = t" "p_recipientUid p = r"
    and rest: "\<forall>p\<in>set ps. p_type p = TASK_ASSIGNED \<and> p_taskId p = t \<and> p_recipientUid p = r"
    using Cons.prems(1) by simp_all
  have "sendPushNotification e w p = (None, w)"
    using p Cons.prems(2) by (simp add: sendPushNotification_skipped)
  then have "dispatchAll e (p # ps) w = dispatchAll e ps w" by simp
  also have "\<dots> = w" using rest Cons.prems(2) by (rule Cons.IH)
  finally show ?case .
qed

text \<open>
  Claim C8. When no assignment notification is stored for a task and a recipient, the
  first assignment trigger for the pair leaves exactly one such record, whatever its
  outcome, and a second trigger for the pair returns at once: the state, and with it the
  notifications collection and the list of messages handed to the push service, is
  unchanged. After any number of triggers for the pair, one after the other, there is
  exactly one record; and no sequence of dispatches of any kind takes the number of
  records for a pair from at most one to more than one.
\<close>

theorem C8_one_assignment_record:
  "(assignmentRecords w t r = [] \<longrightarrow>
      length (assignmentRecords (snd (sendTaskAssignmentNotification e w t r c1 n1 b1)) t r) = 1
    \<and> sendTaskAssignmentNotification e
         (snd (sendTaskAssignmentNotification e w t r c1 n1 b1)) t r c2 n2 b2
        = (None, snd (sendTaskAssignmentNotification e w t r c1 n1 b1)))
   \<and> (assignmentRecords w t r = [] \<and> ps \<noteq> []
        \<and> (\<forall>p\<in>set ps. p_type p = TASK_ASSIGNED \<and> p_taskId p = t \<and> p_recipientUid p = r)
      \<longrightarrow> length (assignmentRecords (dispatchAll e ps w) t r) = 1)
   \<and> (length (assignmentRecords w t r) \<le> 1
      \<longrightarrow> length (assignmentRecords (dispatchAll e qs w) t r) \<le> 1)"
proof (intro conjI impI)
  assume none: "assignmentRecords w t r = []"
  let ?w1 = "snd (sendTaskAssignmentNotification e w t r c1 n1 b1)"
  show one: "length (assignmentRecords ?w1 t r) = 1"
    using none by (simp add: sendTaskAssignmentNotification_def assignmentRecords_send)
  then have "assignmentRecords ?w1 t r \<noteq> []" by auto
  then show "sendTaskAssignmentNotification e ?w1 t r c2 n2 b2 = (None, ?w1)"
    unfolding sendTaskAssignmentNotification_def [of e ?w1]
    by (intro sendPushNotification_skipped) simp_all
next
  assume a: "assignmentRecords w t r = [] \<and> ps \<noteq> []
        \<and> (\<forall>p\<in>set ps. p_type p = TASK_ASSIGNED \<and> p_taskId p = t \<and> p_recipientUid p = r)"
  then obtain p ps' where ps: "ps = p # ps'" by (cases ps) auto
  let ?w1 = "snd (sendPushNotification e w p)"
  have one: "length (assignmentRecords ?w1 t r) = 1"
    using a ps by (simp add: assignmentRecords_send)
  then have ne: "assignmentRecords ?w1 t r \<noteq> []" by auto
  have "dispatchAll e ps' ?w1 = ?w1"
    using a ps ne by (intro dispatchAll_keeps_one [of _ t r]) simp_all
  then show "length (assignmentRecords (dispatchAll e ps w) t r) = 1"
    using one by (simp add: ps)
next
  assume "length (assignmentRecords w t r) \<le> 1"
  then show "length (assignmentRecords (dispatchAll e qs w) t r) \<le> 1"
    by (rule dispatchAll_at_most_one)
qed


theorem C8_one_assignment_record_witness:
  "assignmentRecords (ex_world ex_task) ''t1'' ''bob'' = []
   \<and> length (assignmentRecords
        (snd (sendTaskAssignmentNotification ex_env (ex_world ex_task) ''t1'' ''bob''
                ''alice'' ''Alice'' ''Buy milk'')) ''t1'' ''bob'') = 1
   \<and> sendTaskAssignmentNotification ex_env
        (snd (sendTaskAssignmentNotification ex_env (ex_world ex_task) ''t1'' ''bob''
                ''alice'' ''Alice'' ''Buy milk'')) ''t1'' ''bob'' ''alice'' ''Alice'' ''Buy milk''
       = (None, snd (sendTaskAssignmentNotification ex_env (ex_world ex_task) ''t1'' ''bob''
                ''alice'' ''Alice'' ''Buy milk''))
   \<and> length (assignmentRecords
        (dispatchAll ex_env_fail [ex_params ''bob'', ex_params ''bob'', ex_params ''bob'']
           (ex_world ex_task)) ''t1'' ''bob'') = 1
   \<and> length (pushed
        (dispatchAll ex_env_fail [ex_params ''bob'', ex_params ''bob'', ex_params ''bob'']
           (ex_world ex_task))) = 1"
proof -
  let ?w = "ex_world ex_task"
  let ?ps = "[ex_params ''bob'', ex_params ''bob'', ex_params ''bob'']"
  have none: "assignmentRecords ?w ''t1'' ''bob'' = []"
    by (simp add: assignmentRecords_def ex_world_def)
  have trig: "\<forall>p\<in>set ?ps. p_type p = TASK_ASSIGNED \<and> p_taskId p = ''t1''
                \<and> p_recipientUid p = ''bob''"
    by (simp add: ex_params_def)
  note inst = C8_one_assignment_record
                [of ?w "''t1''" "''bob''" ex_env "''alice''" "''Alice''" "''Buy milk''"
                    "''alice''" "''Alice''" "''Buy milk''"]
  note inst' = C8_one_assignment_record [of ?w "''t1''" "''bob''" ex_env_fail _ _ _ _ _ _ ?ps]
  have 1: "length (assignmentRecords
        (snd (sendTaskAssignmentNotification ex_env ?w ''t1'' ''bob''
                ''alice'' ''Alice'' ''Buy milk'')) ''t1'' ''bob'') = 1"
    and 2: "sendTaskAssignmentNotification ex_env
        (snd (sendTaskAssignmentNotification ex_env ?w ''t1'' ''bob''
                ''alice'' ''Alice'' ''Buy milk'')) ''t1'' ''bob'' ''alice'' ''Alice'' ''Buy milk''
       = (None, snd (sendTaskAssignmentNotification ex_env ?w ''t1'' ''bob''
                ''alice'' ''Alice'' ''Buy milk''))"
    using inst none by simp_all
  have 3: "length (assignmentRecords (dispatchAll ex_env_fail ?ps ?w) ''t1'' ''bob'') = 1"
    using inst' none trig by simp
  have 4: "length (pushed (dispatchAll ex_env_fail ?ps ?w)) = 1"
    by code_simp
  show ?thesis by (intro conjI none 1 2 3 4)
qed

end
